theory Spec2Isabelle
  imports Complex_Main "HOL-Library.Word" "HOL-Library.Sublist" "HOL-Library.AList"
begin

section \<open>Python library primitives used by the codec\<close>

text \<open>
  The wire is a sequence of bytes. Python integers are unbounded (\<open>int\<close>); a byte is an
  8-bit word. The exceptions of the Python runtime that the modelled code can raise are
  values of \<open>py_error\<close>.
\<close>

type_synonym byte = "8 word"

datatype py_error =
    IndexError | KeyError | TypeError | ValueError | OverflowError
  | UnicodeDecodeError | NameError | OSError | FileNotFoundError
  | AttributeError | SerializingException | DeserializingException

text \<open>\<open>int.bit_length()\<close>: the number of bits of the absolute value; 0 for 0.\<close>

fun bits_of_nat :: "nat \<Rightarrow> nat" where
  "bits_of_nat n = (if n = 0 then 0 else Suc (bits_of_nat (n div 2)))"

declare bits_of_nat.simps [simp del]

definition bit_length :: "int \<Rightarrow> nat" where
  "bit_length n = bits_of_nat (nat \<bar>n\<bar>)"

text \<open>
  The \<open>k\<close> low-order bytes of an integer, least significant first. On a negative integer
  \<open>div\<close> and \<open>mod\<close> round towards minus infinity (as Python's do), so the bytes are those
  of the two's-complement representation.
\<close>

fun le_bytes :: "int \<Rightarrow> nat \<Rightarrow> byte list" where
  "le_bytes n 0 = []"
| "le_bytes n (Suc k) = word_of_int (n mod 256) # le_bytes (n div 256) k"

text \<open>\<open>int.to_bytes(n, size, byteorder='little', signed=...)\<close>; OverflowError when
  \<open>n\<close> does not fit into \<open>size\<close> bytes.\<close>

definition to_bytes_signed :: "int \<Rightarrow> nat \<Rightarrow> py_error + byte list" where
  "to_bytes_signed n sz =
     (if (if sz = 0 then n = 0 else - (2 ^ (8 * sz - 1)) \<le> n \<and> n < 2 ^ (8 * sz - 1))
      then Inr (le_bytes n sz) else Inl OverflowError)"

definition to_bytes_unsigned :: "int \<Rightarrow> nat \<Rightarrow> py_error + byte list" where
  "to_bytes_unsigned n sz =
     (if 0 \<le> n \<and> n < 2 ^ (8 * sz) then Inr (le_bytes n sz) else Inl OverflowError)"

text \<open>\<open>int.from_bytes(bs, byteorder='little', signed=...)\<close>; the empty string reads as 0.\<close>

fun from_bytes_unsigned :: "byte list \<Rightarrow> int" where
  "from_bytes_unsigned [] = 0"
| "from_bytes_unsigned (b # bs) = uint b + 256 * from_bytes_unsigned bs"

definition from_bytes_signed :: "byte list \<Rightarrow> int" where
  "from_bytes_signed bs =
     (let u = from_bytes_unsigned bs in
      if bs \<noteq> [] \<and> 2 ^ (8 * length bs - 1) \<le> u then u - 2 ^ (8 * length bs) else u)"

section \<open>Python values\<close>

text \<open>
  The ten kinds of value the protocol carries (the keys of \<open>TYPE_MAP\<close>), as a datatype.
  \<^item> A \<open>str\<close> is held as its UTF-8 encoding, one \<open>char\<close> per byte; only valid UTF-8
    stands for a Python string (\<open>utf8_split\<close> below).
  \<^item> A \<open>float\<close> is held as what it denotes: a rational number, an infinity or NaN.
    Which rationals are floats, and the sign of zero, play no role in the code modelled.
  \<^item> A \<open>dict\<close> is the list of its items and a \<open>set\<close> the list of its elements, both in
    iteration order.
\<close>

datatype float_class = FNaN | FInf bool | FNum rat

datatype pyval =
    PInt int
  | PFloat float_class
  | PStr string
  | PBytes "byte list"
  | PList "pyval list"
  | PTuple "pyval list"
  | PDict "(pyval \<times> pyval) list"
  | PNone
  | PBool bool
  | PSet "pyval list"

text \<open>The numeric value of \<open>int\<close>, \<open>bool\<close> and \<open>float\<close>, which Python compares across kinds
  (\<open>1 == True == 1.0\<close>).\<close>

fun py_number :: "pyval \<Rightarrow> float_class option" where
  "py_number (PInt n) = Some (FNum (of_int n))"
| "py_number (PBool b) = Some (FNum (if b then 1 else 0))"
| "py_number (PFloat x) = Some x"
| "py_number _ = None"

text \<open>
  Python's \<open>==\<close> between two values that are distinct objects. Numbers compare by
  value and NaN equals nothing; sequences compare element by element; sets and dicts
  compare as unordered collections; values of different kinds are unequal.
\<close>

definition num_eq :: "float_class option \<Rightarrow> float_class option \<Rightarrow> bool" where
  "num_eq a b = (case (a, b) of (Some x, Some y) \<Rightarrow> x \<noteq> FNaN \<and> x = y | _ \<Rightarrow> False)"

lemma size_item_less [termination_simp]:
  "(k, v) \<in> set xs \<Longrightarrow> size k < Suc (size_list (size_prod size size) xs)"
  "(k, v) \<in> set xs \<Longrightarrow> size v < Suc (size_list (size_prod size size) xs)"
  by (induction xs) auto

fun py_eq :: "pyval \<Rightarrow> pyval \<Rightarrow> bool" where
  "py_eq (PInt n) b = num_eq (py_number (PInt n)) (py_number b)"
| "py_eq (PFloat x) b = num_eq (py_number (PFloat x)) (py_number b)"
| "py_eq (PBool c) b = num_eq (py_number (PBool c)) (py_number b)"
| "py_eq (PStr a) b = (case b of PStr a' \<Rightarrow> a = a' | _ \<Rightarrow> False)"
| "py_eq (PBytes a) b = (case b of PBytes a' \<Rightarrow> a = a' | _ \<Rightarrow> False)"
| "py_eq PNone b = (case b of PNone \<Rightarrow> True | _ \<Rightarrow> False)"
| "py_eq (PList xs) b = (case b of PList ys \<Rightarrow> list_all2 py_eq xs ys | _ \<Rightarrow> False)"
| "py_eq (PTuple xs) b = (case b of PTuple ys \<Rightarrow> list_all2 py_eq xs ys | _ \<Rightarrow> False)"
| "py_eq (PSet xs) b =
     (case b of
        PSet ys \<Rightarrow> length xs = length ys \<and> (\<forall>x\<in>set xs. \<exists>y\<in>set ys. py_eq x y)
      | _ \<Rightarrow> False)"
| "py_eq (PDict xs) b =
     (case b of
        PDict ys \<Rightarrow> length xs = length ys \<and>
          (\<forall>(k, v)\<in>set xs. \<exists>(k', v')\<in>set ys. py_eq k k' \<and> py_eq v v')
      | _ \<Rightarrow> False)"

text \<open>\<open>hash(v)\<close> succeeds: lists, dicts and sets are unhashable, a tuple is hashable when
  its elements are.\<close>

fun hashable :: "pyval \<Rightarrow> bool" where
  "hashable (PList xs) = False"
| "hashable (PDict kvs) = False"
| "hashable (PSet xs) = False"
| "hashable (PTuple xs) = list_all hashable xs"
| "hashable _ = True"

section \<open>binary.py: integers\<close>

text \<open>\<open>serialize_int\<close>: \<open>size = (data.bit_length() + 7) // 8 + 1\<close>, then
  \<open>int.to_bytes(data, size, byteorder='little', signed=True)\<close>.\<close>

definition serialize_int :: "int \<Rightarrow> py_error + byte list" where
  "serialize_int data = to_bytes_signed data ((bit_length data + 7) div 8 + 1)"

definition deserialize_int :: "byte list \<Rightarrow> int" where
  "deserialize_int data = from_bytes_signed data"

section \<open>binary.py: the codec\<close>

text \<open>A \<open>char\<close> of a string is one byte of its UTF-8 encoding.\<close>

definition byte_of_char :: "char \<Rightarrow> byte" where
  "byte_of_char c = of_nat (of_char c)"

definition char_of_byte :: "byte \<Rightarrow> char" where
  "char_of_byte b = char_of (unat b)"

text \<open>
  \<open>str(data, 'utf-8')\<close> decodes strictly: it raises UnicodeDecodeError on a stray
  continuation byte, a truncated sequence, an overlong form, a surrogate and anything
  above U+10FFFF. \<open>utf8_split\<close> cuts well-formed UTF-8 into the byte groups of its
  code points and is \<open>None\<close> on anything else.
\<close>

definition utf8_cont :: "byte \<Rightarrow> bool" where
  "utf8_cont b = (0x80 \<le> b \<and> b \<le> 0xBF)"

fun utf8_split :: "byte list \<Rightarrow> byte list list option" where
  "utf8_split [] = Some []"
| "utf8_split (b0 # rest) =
     (if b0 < 0x80 then map_option ((#) [b0]) (utf8_split rest)
      else if 0xC2 \<le> b0 \<and> b0 \<le> 0xDF then
        (case rest of
           b1 # r \<Rightarrow> if utf8_cont b1 then map_option ((#) [b0, b1]) (utf8_split r) else None
         | _ \<Rightarrow> None)
      else if 0xE0 \<le> b0 \<and> b0 \<le> 0xEF then
        (case rest of
           b1 # b2 # r \<Rightarrow>
             if (if b0 = 0xE0 then 0xA0 else 0x80) \<le> b1
                \<and> b1 \<le> (if b0 = 0xED then 0x9F else 0xBF) \<and> utf8_cont b2
             then map_option ((#) [b0, b1, b2]) (utf8_split r) else None
         | _ \<Rightarrow> None)
      else if 0xF0 \<le> b0 \<and> b0 \<le> 0xF4 then
        (case rest of
           b1 # b2 # b3 # r \<Rightarrow>
             if (if b0 = 0xF0 then 0x90 else 0x80) \<le> b1
                \<and> b1 \<le> (if b0 = 0xF4 then 0x8F else 0xBF) \<and> utf8_cont b2 \<and> utf8_cont b3
             then map_option ((#) [b0, b1, b2, b3]) (utf8_split r) else None
         | _ \<Rightarrow> None)
      else None)"

text \<open>
  The \<open>serialize_*\<close> functions, one per row of \<open>TYPE_MAP\<close>. \<open>serialize_float\<close> is
  \<open>return struct.pack('f', data)\<close>, and the name \<open>struct\<close> is bound nowhere: binary.py
  imports the names of misc.py and nothing else, and misc.py does not import \<open>struct\<close>. The
  lookup of the name raises NameError before anything is packed.
\<close>

definition serialize_float :: "float_class \<Rightarrow> py_error + byte list" where
  "serialize_float data = Inl NameError"

definition serialize_string :: "string \<Rightarrow> byte list" where
  "serialize_string data = map byte_of_char data"

definition serialize_bytes :: "byte list \<Rightarrow> byte list" where
  "serialize_bytes data = data"

definition serialize_none :: "byte list" where
  "serialize_none = [0]"

definition serialize_bool :: "bool \<Rightarrow> byte list" where
  "serialize_bool data = (if data then [1] else [0])"

text \<open>\<open>list(data.items())\<close>: the list of the (key, value) tuples of a dict.\<close>

definition items_list :: "(pyval \<times> pyval) list \<Rightarrow> pyval" where
  "items_list kvs = PList (map (\<lambda>(k, v). PTuple [k, v]) kvs)"

text \<open>The body of \<open>serialize\<close> after the \<open>TYPE_MAP\<close> lookup.\<close>

definition tagged :: "byte \<Rightarrow> py_error + byte list \<Rightarrow> py_error + byte list" where
  "tagged tag r =
     (case r of
        Inl e \<Rightarrow> Inl SerializingException
      | Inr serialized \<Rightarrow>
          (case to_bytes_unsigned (int (length serialized)) 8 of
             Inl e \<Rightarrow> Inl SerializingException
           | Inr len8 \<Rightarrow> Inr (tag # len8 @ serialized)))"

text \<open>
  \<open>serialize\<close> and the container serializers call each other; \<open>serialize_dict\<close> calls
  \<open>serialize\<close> on the list of items, which is not a part of the dict, so termination is by
  the measure \<open>weight\<close>. Any exception inside \<open>serialize\<close> is re-raised as
  SerializingException; the ten kinds can meet two: the NameError of a float and the
  OverflowError of a payload of \<open>2 ^ 64\<close> bytes or more.
\<close>

fun weight :: "pyval \<Rightarrow> nat" where
  "weight (PList xs) = Suc (sum_list (map (\<lambda>x. Suc (weight x)) xs))"
| "weight (PTuple xs) = Suc (Suc (sum_list (map (\<lambda>x. Suc (weight x)) xs)))"
| "weight (PSet xs) = Suc (Suc (sum_list (map (\<lambda>x. Suc (weight x)) xs)))"
| "weight (PDict kvs) = 3 + sum_list (map (\<lambda>(k, v). weight k + weight v + 5) kvs)"
| "weight _ = 0"

lemma weight_items_list [termination_simp]:
  "weight (items_list kvs) = Suc (sum_list (map (\<lambda>(k, v). weight k + weight v + 5) kvs))"
  by (induction kvs) (auto simp: items_list_def)

function serialize :: "pyval \<Rightarrow> py_error + byte list"
  and serialize_list :: "pyval list \<Rightarrow> py_error + byte list"
  and serialize_tuple :: "pyval list \<Rightarrow> py_error + byte list"
  and serialize_dict :: "(pyval \<times> pyval) list \<Rightarrow> py_error + byte list"
  and serialize_set :: "pyval list \<Rightarrow> py_error + byte list"
where
  "serialize (PInt n) = tagged 0 (serialize_int n)"
| "serialize (PFloat x) = tagged 1 (serialize_float x)"
| "serialize (PStr s) = tagged 2 (Inr (serialize_string s))"
| "serialize (PBytes b) = tagged 3 (Inr (serialize_bytes b))"
| "serialize (PList xs) = tagged 4 (serialize_list xs)"
| "serialize (PTuple xs) = tagged 5 (serialize_tuple xs)"
| "serialize (PDict kvs) = tagged 6 (serialize_dict kvs)"
| "serialize PNone = tagged 7 (Inr serialize_none)"
| "serialize (PBool b) = tagged 8 (Inr (serialize_bool b))"
| "serialize (PSet xs) = tagged 9 (serialize_set xs)"
| "serialize_list [] = Inr []"
| "serialize_list (i # data) =
     (case serialize i of
        Inl e \<Rightarrow> Inl e
      | Inr b \<Rightarrow> (case serialize_list data of Inl e \<Rightarrow> Inl e | Inr bs \<Rightarrow> Inr (b @ bs)))"
| "serialize_tuple data = serialize_list data"
| "serialize_dict data = serialize (items_list data)"
| "serialize_set data = serialize_list data"
  by pat_completeness auto
termination
  by (relation "measure (\<lambda>x. case x of
           Inl (Inl v) \<Rightarrow> weight v
         | Inl (Inr xs) \<Rightarrow> sum_list (map (\<lambda>x. Suc (weight x)) xs)
         | Inr (Inl xs) \<Rightarrow> Suc (sum_list (map (\<lambda>x. Suc (weight x)) xs))
         | Inr (Inr (Inl kvs)) \<Rightarrow> 2 + sum_list (map (\<lambda>(k, v). weight k + weight v + 5) kvs)
         | Inr (Inr (Inr xs)) \<Rightarrow> Suc (sum_list (map (\<lambda>x. Suc (weight x)) xs)))")
     (auto simp: weight_items_list)

text \<open>The \<open>deserialize_*\<close> functions. \<open>deserialize_float\<close> is
  \<open>return struct.unpack('f', data)[0]\<close>: a NameError, as in \<open>serialize_float\<close>.\<close>

definition deserialize_float :: "byte list \<Rightarrow> py_error + float_class" where
  "deserialize_float data = Inl NameError"

definition deserialize_string :: "byte list \<Rightarrow> py_error + string" where
  "deserialize_string data =
     (case utf8_split data of
        None \<Rightarrow> Inl UnicodeDecodeError
      | Some _ \<Rightarrow> Inr (map char_of_byte data))"

definition deserialize_bytes :: "byte list \<Rightarrow> byte list" where
  "deserialize_bytes data = data"

definition deserialize_bool :: "byte list \<Rightarrow> bool" where
  "deserialize_bool data = (if data = [1] then True else False)"

text \<open>
  What \<open>deserialize_dict\<close> and \<open>deserialize_set\<close> use of Python: iterating over a value
  (\<open>for key, val in ditems\<close>), unpacking an item into exactly two values, storing under a
  key (\<open>d[key] = val\<close>: TypeError for an unhashable key, an equal key keeps its place and
  gets the new value) and building a set from a list.
\<close>

fun py_iter :: "pyval \<Rightarrow> py_error + pyval list" where
  "py_iter (PList xs) = Inr xs"
| "py_iter (PTuple xs) = Inr xs"
| "py_iter (PSet xs) = Inr xs"
| "py_iter (PDict kvs) = Inr (map fst kvs)"
| "py_iter (PBytes bs) = Inr (map (\<lambda>b. PInt (uint b)) bs)"
| "py_iter (PStr s) =
     (case utf8_split (map byte_of_char s) of
        Some cs \<Rightarrow> Inr (map (\<lambda>c. PStr (map char_of_byte c)) cs)
      | None \<Rightarrow> Inr [])"
| "py_iter _ = Inl TypeError"

definition unpack2 :: "pyval \<Rightarrow> py_error + pyval \<times> pyval" where
  "unpack2 item =
     (case py_iter item of
        Inl e \<Rightarrow> Inl e
      | Inr [k, v] \<Rightarrow> Inr (k, v)
      | Inr _ \<Rightarrow> Inl ValueError)"

fun dict_store :: "(pyval \<times> pyval) list \<Rightarrow> pyval \<Rightarrow> pyval \<Rightarrow> (pyval \<times> pyval) list" where
  "dict_store [] k v = [(k, v)]"
| "dict_store ((k', v') # d) k v =
     (if py_eq k' k then (k', v) # d else (k', v') # dict_store d k v)"

definition dict_setitem ::
  "(pyval \<times> pyval) list \<Rightarrow> pyval \<Rightarrow> pyval \<Rightarrow> py_error + (pyval \<times> pyval) list" where
  "dict_setitem d k v = (if hashable k then Inr (dict_store d k v) else Inl TypeError)"

fun dict_fill ::
  "(pyval \<times> pyval) list \<Rightarrow> pyval list \<Rightarrow> py_error + (pyval \<times> pyval) list" where
  "dict_fill d [] = Inr d"
| "dict_fill d (item # ditems) =
     (case unpack2 item of
        Inl e \<Rightarrow> Inl e
      | Inr (key, val) \<Rightarrow>
          (case dict_setitem d key val of Inl e \<Rightarrow> Inl e | Inr d' \<Rightarrow> dict_fill d' ditems))"

definition set_add :: "pyval list \<Rightarrow> pyval \<Rightarrow> py_error + pyval list" where
  "set_add s x =
     (if \<not> hashable x then Inl TypeError
      else if \<exists>y\<in>set s. py_eq y x then Inr s else Inr (s @ [x]))"

fun py_set :: "pyval list \<Rightarrow> pyval list \<Rightarrow> py_error + pyval list" where
  "py_set s [] = Inr s"
| "py_set s (x # xs) = (case set_add s x of Inl e \<Rightarrow> Inl e | Inr s' \<Rightarrow> py_set s' xs)"

text \<open>
  \<open>deserialize\<close>, the table \<open>TAG_MAP\<close> (an unknown tag is a KeyError) and the container
  deserializers. Python slices never raise: \<open>data[i : i + n]\<close> is \<open>take n (drop i data)\<close>,
  shorter than \<open>n\<close> when the data ends early. The loop of \<open>deserialize_list\<close> over the
  index \<open>i\<close> is a recursion on the bytes from \<open>i\<close> on. \<open>deserialize\<close> re-raises every
  exception as DeserializingException.
\<close>

function deserialize :: "byte list \<Rightarrow> py_error + pyval"
  and TAG_MAP :: "byte \<Rightarrow> byte list \<Rightarrow> py_error + pyval"
  and deserialize_list :: "byte list \<Rightarrow> py_error + pyval list"
  and deserialize_tuple :: "byte list \<Rightarrow> py_error + pyval list"
  and deserialize_dict :: "byte list \<Rightarrow> py_error + (pyval \<times> pyval) list"
  and deserialize_set :: "byte list \<Rightarrow> py_error + pyval list"
where
  "deserialize [] = Inl DeserializingException"
| "deserialize (data_type # rest) =
     (case TAG_MAP data_type (take (nat (from_bytes_unsigned (take 8 rest))) (drop 8 rest)) of
        Inl e \<Rightarrow> Inl DeserializingException
      | Inr v \<Rightarrow> Inr v)"
| "TAG_MAP t data =
     (if t = 0 then Inr (PInt (deserialize_int data))
      else if t = 1 then map_sum id PFloat (deserialize_float data)
      else if t = 2 then map_sum id PStr (deserialize_string data)
      else if t = 3 then Inr (PBytes (deserialize_bytes data))
      else if t = 4 then map_sum id PList (deserialize_list data)
      else if t = 5 then map_sum id PTuple (deserialize_tuple data)
      else if t = 6 then map_sum id PDict (deserialize_dict data)
      else if t = 7 then Inr PNone
      else if t = 8 then Inr (PBool (deserialize_bool data))
      else if t = 9 then map_sum id PSet (deserialize_set data)
      else Inl KeyError)"
| "deserialize_list [] = Inr []"
| "deserialize_list (data_type # rest) =
     (case TAG_MAP data_type (take (nat (from_bytes_unsigned (take 8 rest))) (drop 8 rest)) of
        Inl e \<Rightarrow> Inl e
      | Inr v \<Rightarrow>
          (case deserialize_list (drop (nat (from_bytes_unsigned (take 8 rest))) (drop 8 rest)) of
             Inl e \<Rightarrow> Inl e
           | Inr vs \<Rightarrow> Inr (v # vs)))"
| "deserialize_tuple data = deserialize_list data"
| "deserialize_dict data =
     (case deserialize data of
        Inl e \<Rightarrow> Inl e
      | Inr ditems \<Rightarrow>
          (case py_iter ditems of Inl e \<Rightarrow> Inl e | Inr items \<Rightarrow> dict_fill [] items))"
| "deserialize_set data =
     (case deserialize_list data of Inl e \<Rightarrow> Inl e | Inr xs \<Rightarrow> py_set [] xs)"
  by pat_completeness auto
termination
  by (relation "measure (\<lambda>x. case x of
           Inl (Inl data) \<Rightarrow> 4 * length data
         | Inl (Inr (Inl (t, data))) \<Rightarrow> 4 * length data + 3
         | Inl (Inr (Inr data)) \<Rightarrow> 4 * length data + 1
         | Inr (Inl data) \<Rightarrow> 4 * length data + 2
         | Inr (Inr (Inl data)) \<Rightarrow> 4 * length data + 2
         | Inr (Inr (Inr data)) \<Rightarrow> 4 * length data + 2)")
     auto

section \<open>Well-formed values and their encodings\<close>

text \<open>
  What Python guarantees of a value of the ten kinds, and the model has to ask for: a
  \<open>str\<close> is text (here, well-formed UTF-8), the elements of a set and the keys of a dict
  are hashable, and no two of them are equal. \<open>float_free\<close> says that no float occurs in a
  value. \<open>wire_size\<close> is the number of bytes of the encoding of a value without floats: a
  tag, eight bytes of length and the payload (for a float, which has no encoding, the four
  bytes its format names stand for the payload). \<open>encodes b v\<close> says that \<open>b\<close> is one
  frame, tag, length and payload, whose payload decodes to \<open>v\<close> under the tag.
\<close>

fun pairwise_unequal :: "pyval list \<Rightarrow> bool" where
  "pairwise_unequal [] = True"
| "pairwise_unequal (x # xs) = ((\<forall>y\<in>set xs. \<not> py_eq x y) \<and> pairwise_unequal xs)"

fun python_value :: "pyval \<Rightarrow> bool" where
  "python_value (PStr s) = (utf8_split (map byte_of_char s) \<noteq> None)"
| "python_value (PList xs) = (\<forall>x\<in>set xs. python_value x)"
| "python_value (PTuple xs) = (\<forall>x\<in>set xs. python_value x)"
| "python_value (PSet xs) =
     ((\<forall>x\<in>set xs. python_value x \<and> hashable x) \<and> pairwise_unequal xs)"
| "python_value (PDict kvs) =
     ((\<forall>(k, v)\<in>set kvs. python_value k \<and> hashable k \<and> python_value v)
      \<and> pairwise_unequal (map fst kvs))"
| "python_value _ = True"

fun wire_size :: "pyval \<Rightarrow> nat" where
  "wire_size (PInt n) = 9 + ((bit_length n + 7) div 8 + 1)"
| "wire_size (PFloat x) = 9 + 4"
| "wire_size (PStr s) = 9 + length s"
| "wire_size (PBytes b) = 9 + length b"
| "wire_size (PList xs) = 9 + sum_list (map wire_size xs)"
| "wire_size (PTuple xs) = 9 + sum_list (map wire_size xs)"
| "wire_size (PDict kvs) =
     9 + (9 + sum_list (map (\<lambda>(k, v). 9 + (wire_size k + (wire_size v + 0))) kvs))"
| "wire_size PNone = 9 + 1"
| "wire_size (PBool b) = 9 + 1"
| "wire_size (PSet xs) = 9 + sum_list (map wire_size xs)"

fun float_free :: "pyval \<Rightarrow> bool" where
  "float_free (PFloat x) = False"
| "float_free (PList xs) = (\<forall>x\<in>set xs. float_free x)"
| "float_free (PTuple xs) = (\<forall>x\<in>set xs. float_free x)"
| "float_free (PSet xs) = (\<forall>x\<in>set xs. float_free x)"
| "float_free (PDict kvs) = (\<forall>(k, v)\<in>set kvs. float_free k \<and> float_free v)"
| "float_free _ = True"

definition encodes :: "byte list \<Rightarrow> pyval \<Rightarrow> bool" where
  "encodes b v \<longleftrightarrow>
     (\<exists>t p. b = t # le_bytes (int (length p)) 8 @ p \<and> length p < 2 ^ 64 \<and> TAG_MAP t p = Inr v)"

section \<open>os.path on a POSIX host\<close>

text \<open>
  The path functions of the Python standard library that session.py calls, in their POSIX
  form (\<open>posixpath\<close>): the separator is \<open>/\<close> and a backslash is an ordinary character.
\<close>

text \<open>\<open>s.split(c)\<close> and \<open>c.join(parts)\<close> for a one-character separator.\<close>

fun str_split :: "char \<Rightarrow> string \<Rightarrow> string list" where
  "str_split c [] = [[]]"
| "str_split c (x # xs) =
     (if x = c then [] # str_split c xs
      else (case str_split c xs of [] \<Rightarrow> [[x]] | w # ws \<Rightarrow> (x # w) # ws))"

fun str_join :: "char \<Rightarrow> string list \<Rightarrow> string" where
  "str_join c [] = []"
| "str_join c [p] = p"
| "str_join c (p # q # ps) = p @ c # str_join c (q # ps)"

definition startswith :: "string \<Rightarrow> string \<Rightarrow> bool" where
  "startswith s p = prefix p s"

text \<open>The loop of \<open>posixpath.normpath\<close> over the components, \<open>new_comps\<close> being the
  accumulator.\<close>

fun norm_comps :: "nat \<Rightarrow> string list \<Rightarrow> string list \<Rightarrow> string list" where
  "norm_comps initial_slashes new_comps [] = new_comps"
| "norm_comps initial_slashes new_comps (part # comps) =
     (if part = '''' \<or> part = ''.'' then norm_comps initial_slashes new_comps comps
      else if part \<noteq> ''..'' \<or> (initial_slashes = 0 \<and> new_comps = [])
              \<or> (new_comps \<noteq> [] \<and> last new_comps = ''..'')
        then norm_comps initial_slashes (new_comps @ [part]) comps
      else if new_comps \<noteq> [] then norm_comps initial_slashes (butlast new_comps) comps
      else norm_comps initial_slashes new_comps comps)"

definition normpath :: "string \<Rightarrow> string" where
  "normpath p =
     (if p = '''' then ''.''
      else
        let initial_slashes =
              (if startswith p ''/'' then
                 (if startswith p ''//'' \<and> \<not> startswith p ''///'' then 2 else 1)
               else 0);
            comps = norm_comps initial_slashes [] (str_split CHR ''/'' p);
            q = replicate initial_slashes CHR ''/'' @ str_join CHR ''/'' comps
        in if q = '''' then ''.'' else q)"

text \<open>\<open>posixpath.join(a, b)\<close>.\<close>

definition join :: "string \<Rightarrow> string \<Rightarrow> string" where
  "join a b =
     (if startswith b ''/'' then b
      else if a = '''' \<or> last a = CHR ''/'' then a @ b
      else a @ ''/'' @ b)"

text \<open>\<open>posixpath.abspath(p)\<close>, \<open>cwd\<close> being the working directory of the server process.\<close>

definition abspath :: "string \<Rightarrow> string \<Rightarrow> string" where
  "abspath cwd p = normpath (if startswith p ''/'' then p else join cwd p)"

section \<open>Python containers and dynamic typing\<close>

text \<open>\<open>d[k]\<close> on the items of a dict, for a hashable key.\<close>

fun dict_lookup :: "(pyval \<times> pyval) list \<Rightarrow> pyval \<Rightarrow> pyval option" where
  "dict_lookup [] k = None"
| "dict_lookup ((k', v) # d) k = (if py_eq k' k then Some v else dict_lookup d k)"

text \<open>\<open>item in container\<close> for every kind of container.\<close>

fun py_contains :: "pyval \<Rightarrow> pyval \<Rightarrow> py_error + bool" where
  "py_contains (PDict d) k =
     (if hashable k then Inr (dict_lookup d k \<noteq> None) else Inl TypeError)"
| "py_contains (PSet xs) k =
     (if hashable k then Inr (\<exists>x\<in>set xs. py_eq x k) else Inl TypeError)"
| "py_contains (PList xs) k = Inr (\<exists>x\<in>set xs. py_eq x k)"
| "py_contains (PTuple xs) k = Inr (\<exists>x\<in>set xs. py_eq x k)"
| "py_contains (PStr s) k = (case k of PStr t \<Rightarrow> Inr (sublist t s) | _ \<Rightarrow> Inl TypeError)"
| "py_contains (PBytes b) k =
     (case k of
        PBytes t \<Rightarrow> Inr (sublist t b)
      | PInt n \<Rightarrow> if 0 \<le> n \<and> n < 256 then Inr (word_of_int n \<in> set b) else Inl ValueError
      | PBool c \<Rightarrow> Inr ((if c then 1 else 0) \<in> set b)
      | _ \<Rightarrow> Inl TypeError)"
| "py_contains _ k = Inl TypeError"

text \<open>\<open>container[key]\<close> on a dict (KeyError for a missing key). The server indexes by
  strings and by what the client sent as a user name, and nothing but a dict can be
  indexed by those: every other container raises TypeError.\<close>

fun py_getitem :: "pyval \<Rightarrow> pyval \<Rightarrow> py_error + pyval" where
  "py_getitem (PDict d) k =
     (if \<not> hashable k then Inl TypeError
      else case dict_lookup d k of None \<Rightarrow> Inl KeyError | Some v \<Rightarrow> Inr v)"
| "py_getitem _ k = Inl TypeError"

text \<open>
  \<open>f(**args)\<close> for a function whose parameters \<open>names\<close> all are required: \<open>args\<close> has to
  be a dict with exactly these strings as keys (TypeError otherwise); the result is the
  arguments in the order of \<open>names\<close>.
\<close>

definition keyword_args :: "string list \<Rightarrow> pyval \<Rightarrow> py_error + pyval list" where
  "keyword_args names args =
     (case args of
        PDict kvs \<Rightarrow>
          if (\<forall>(k, v)\<in>set kvs. \<exists>n\<in>set names. k = PStr n)
             \<and> (\<forall>n\<in>set names. dict_lookup kvs (PStr n) \<noteq> None)
          then Inr (map (\<lambda>n. the (dict_lookup kvs (PStr n))) names)
          else Inl TypeError
      | _ \<Rightarrow> Inl TypeError)"

section \<open>The host\<close>

text \<open>
  What the server gets from the operating system and from library functions outside the
  repository, taken as parameters: the working directory of the process, the file system
  (what exists, and whether a rename, a copy or the rewrite of the users file fails),
  \<open>hashlib.sha256(..).hexdigest()\<close>, \<open>json.dumps\<close> on a string, \<open>str(e)\<close> of an exception,
  \<open>tuple(t.utctimetuple())\<close> of an instant and \<open>os.name\<close>.
  A call of a file-system primitive is recorded as an \<open>fs_call\<close>.
\<close>

record host =
  getcwd :: string
  path_exists :: "string \<Rightarrow> bool"
  os_rename :: "string \<Rightarrow> string \<Rightarrow> py_error option"
  shutil_copy :: "string \<Rightarrow> string \<Rightarrow> py_error option"
  write_users :: "(pyval \<times> pyval) list \<Rightarrow> py_error option"
  sha256_hex :: "string \<Rightarrow> string"
  json_dumps :: "string \<Rightarrow> string"
  exc_str :: "py_error \<Rightarrow> string"
  utctimetuple :: "int \<Rightarrow> pyval"
  os_name :: string

datatype fs_call = OsRename string string | ShutilCopy string string

section \<open>auth.py\<close>

text \<open>\<open>hash_password\<close>: \<open>bytes(password, ENCODING)\<close> raises TypeError unless the password is a
  string.\<close>

definition hash_password :: "host \<Rightarrow> pyval \<Rightarrow> py_error + string" where
  "hash_password h password =
     (case password of PStr s \<Rightarrow> Inr (sha256_hex h s) | _ \<Rightarrow> Inl TypeError)"

section \<open>session.py and the server state\<close>

text \<open>
  An instant (a \<open>datetime\<close>) is the integer of microseconds since \<open>datetime.min\<close>,
  0001-01-01 00:00:00; the last one, \<open>datetime.max\<close>, is 9999-12-31 23:59:59.999999. A
  duration (a \<open>timedelta\<close>) is an integer of microseconds.
  \<^item> \<open>timedelta(seconds=n)\<close> raises OverflowError unless the days of \<open>n\<close> seconds lie
    within 999999999 of zero.
  \<^item> \<open>datetime + timedelta\<close> raises OverflowError when the sum is not a \<open>datetime\<close>.
\<close>

definition datetime_max :: int where
  "datetime_max = 315537897599999999"

definition timedelta :: "int \<Rightarrow> py_error + int" where
  "timedelta seconds =
     (if - 999999999 \<le> seconds div 86400 \<and> seconds div 86400 \<le> 999999999
      then Inr (seconds * 1000000) else Inl OverflowError)"

definition datetime_add :: "int \<Rightarrow> py_error + int \<Rightarrow> py_error + int" where
  "datetime_add t d =
     (case d of
        Inl e \<Rightarrow> Inl e
      | Inr us \<Rightarrow> if 0 \<le> t + us \<and> t + us \<le> datetime_max then Inr (t + us) else Inl OverflowError)"

record session =
  addr :: "string \<times> int"
  session_id :: string
  username :: pyval
  timestamp :: int
  expire_after :: "int option"
  current_directory :: string
  expires :: "int option"

text \<open>The fields of \<open>CSHServer\<close> that the modelled code reads or writes. \<open>users\<close> is the dict
  loaded from the users file; \<open>sessions\<close> is the dict from session ID to session.\<close>

record server =
  path :: string
  server_name :: string
  users :: "(pyval \<times> pyval) list"
  sessions :: "(string \<times> session) list"
  session_limit :: "int option"
  default_expire :: "int option"
  allow_change_expire :: bool

text \<open>\<open>Session.__init__\<close>: the session expires only if \<open>expire_after\<close> is neither None nor 0,
  and then at \<open>timestamp + datetime.timedelta(seconds=self.expire_after)\<close>, whose
  OverflowError leaves the constructor.\<close>

definition Session ::
  "string \<times> int \<Rightarrow> string \<Rightarrow> pyval \<Rightarrow> int \<Rightarrow> int option \<Rightarrow> py_error + session" where
  "Session a sid uname ts ea =
     (case (case ea of
              None \<Rightarrow> Inr None
            | Some n \<Rightarrow>
                if n \<noteq> 0 then map_sum id Some (datetime_add ts (timedelta n)) else Inr None) of
        Inl e \<Rightarrow> Inl e
      | Inr ex \<Rightarrow>
          Inr \<lparr>addr = a, session_id = sid, username = uname, timestamp = ts, expire_after = ea,
               current_directory = normpath [], expires = ex\<rparr>)"

text \<open>
  \<open>Session.validate\<close>. The session object \<open>s\<close> a command holds is the object stored in the
  table under \<open>session_id s\<close> (the only place that stores one is \<open>log_in\<close>, under the ID it
  gives the session), hence renewing \<open>s\<close> renews the entry of the table as well.
  \<open>now1\<close> and \<open>now2\<close> are the two readings of \<open>datetime.datetime.now()\<close>. The renewal
  \<open>datetime.datetime.now() + datetime.timedelta(seconds=self.expire_after)\<close> raises
  OverflowError when it passes \<open>datetime.max\<close>; nothing has been changed by then.
\<close>

definition validate :: "int \<Rightarrow> int \<Rightarrow> server \<Rightarrow> session \<Rightarrow> py_error + bool \<times> server \<times> session" where
  "validate now1 now2 sv s =
     (if map_of (sessions sv) (session_id s) = None then Inr (False, sv, s)
      else case expires s of
        None \<Rightarrow> Inr (True, sv, s)
      | Some e \<Rightarrow>
          if now1 > e then
            Inr (False, sv\<lparr>sessions := AList.delete (session_id s) (sessions sv)\<rparr>, s)
          else
            (case expire_after s of
               None \<Rightarrow> Inl TypeError
             | Some ttl \<Rightarrow>
                 (case datetime_add now2 (timedelta ttl) of
                    Inl e \<Rightarrow> Inl e
                  | Inr renewed \<Rightarrow>
                      let s' = s\<lparr>expires := Some renewed\<rparr>
                      in Inr (True,
                              sv\<lparr>sessions := AList.update (session_id s) s' (sessions sv)\<rparr>,
                              s'))))"

text \<open>\<open>Session.get_full_path\<close> and \<open>Session.validate_path\<close>.\<close>

definition get_full_path :: "host \<Rightarrow> server \<Rightarrow> session \<Rightarrow> string \<Rightarrow> string" where
  "get_full_path h sv s p =
     (if startswith (normpath p) [CHR 0x5C] \<or> startswith (normpath p) ''/''
      then abspath (getcwd h) (join (path sv) (drop 1 (normpath p)))
      else abspath (getcwd h) (join (path sv) (join (current_directory s) p)))"

definition validate_path :: "host \<Rightarrow> server \<Rightarrow> session \<Rightarrow> string \<Rightarrow> bool" where
  "validate_path h sv s p =
     (let full_path = get_full_path h sv s p in
      if length full_path < length (abspath (getcwd h) (path sv))
         \<or> \<not> startswith full_path (abspath (getcwd h) (path sv))
      then False else True)"

section \<open>commands.py\<close>

text \<open>A command object: \<open>finish\<close> stores the result dict in \<open>data\<close>.\<close>

record command =
  data :: "pyval option"
  finished :: bool

definition new_command :: command where
  "new_command = \<lparr>data = None, finished = False\<rparr>"

definition finish :: "pyval \<Rightarrow> command \<Rightarrow> command" where
  "finish d c = c\<lparr>finished := True, data := Some d\<rparr>"

text \<open>The result dicts \<open>{'code': n}\<close> and \<open>{'code': n, 'error': msg}\<close>.\<close>

definition code_only :: "int \<Rightarrow> pyval" where
  "code_only n = PDict [(PStr ''code'', PInt n)]"

definition code_error :: "int \<Rightarrow> string \<Rightarrow> pyval" where
  "code_error n msg = PDict [(PStr ''code'', PInt n), (PStr ''error'', PStr msg)]"

text \<open>What running a session command leaves: an exception that escaped \<open>preform\<close> or the
  command object, the server state, and the file-system primitives it called.\<close>

type_synonym command_run = "(py_error + command) \<times> server \<times> fs_call list"

text \<open>\<open>self.session.server.users[self.session.username]['permissions']\<close>\<close>

definition user_permissions :: "server \<Rightarrow> session \<Rightarrow> py_error + pyval" where
  "user_permissions sv s =
     (case py_getitem (PDict (users sv)) (username s) of
        Inl e \<Rightarrow> Inl e
      | Inr user \<Rightarrow> py_getitem user (PStr ''permissions''))"


text \<open>The second argument of \<open>os.rename\<close> as a path: a string, or bytes; anything else is a
  TypeError of the call.\<close>

definition as_path :: "pyval \<Rightarrow> string option" where
  "as_path v = (case v of PStr s \<Rightarrow> Some s | PBytes b \<Rightarrow> Some (map char_of_byte b) | _ \<Rightarrow> None)"

text \<open>\<open>RenameCommand.preform\<close>. The path functions raise TypeError on a path that is not a
  string.\<close>

definition RenameCommand_preform ::
  "host \<Rightarrow> int \<Rightarrow> int \<Rightarrow> pyval \<Rightarrow> pyval \<Rightarrow> server \<Rightarrow> session \<Rightarrow> command_run" where
  "RenameCommand_preform h now1 now2 p new_name sv s =
     (case validate now1 now2 sv s of
        Inl e \<Rightarrow> (Inl e, sv, [])
      | Inr (ok, sv1, s1) \<Rightarrow>
          if \<not> ok then
            (Inr (finish (code_error 1 ''Session invalid or expired.'') new_command), sv1, [])
          else
            (case user_permissions sv1 s1 of
               Inl e \<Rightarrow> (Inl e, sv1, [])
             | Inr perm \<Rightarrow>
                 if \<not> (py_eq perm (PStr ''w'') \<or> py_eq perm (PStr ''a'')) then
                   (Inr (finish (code_error 19
                           ''User does not have permission to preform this command.'')
                           new_command), sv1, [])
                 else
                   (case p of
                      PStr ps \<Rightarrow>
                        if \<not> (validate_path h sv1 s1 ps
                                \<and> path_exists h (get_full_path h sv1 s1 ps)) then
                          (Inr (finish (code_error 18 ''Invalid path.'') new_command), sv1, [])
                        else
                          (case as_path new_name of
                             None \<Rightarrow>
                               (Inr (finish (code_error 4
                                       (''Error with renaming path: ['' @ exc_str h TypeError @ '']''))
                                       new_command), sv1, [])
                           | Some dst \<Rightarrow>
                               (case os_rename h (get_full_path h sv1 s1 ps) dst of
                                  None \<Rightarrow>
                                    (Inr (finish (code_only 0) new_command), sv1,
                                     [OsRename (get_full_path h sv1 s1 ps) dst])
                                | Some e \<Rightarrow>
                                    if e = FileNotFoundError then
                                      (Inr (finish (code_error 3
                                              (''Path '' @ json_dumps h ps @ '' not found.''))
                                              new_command), sv1,
                                       [OsRename (get_full_path h sv1 s1 ps) dst])
                                    else
                                      (Inr (finish (code_error 4
                                              (''Error with renaming path: ['' @ exc_str h e @ '']''))
                                              new_command), sv1,
                                       [OsRename (get_full_path h sv1 s1 ps) dst])))
                    | _ \<Rightarrow> (Inl TypeError, sv1, []))))"

text \<open>\<open>CopyCommand.preform\<close>, which validates the destination as well.\<close>

definition CopyCommand_preform ::
  "host \<Rightarrow> int \<Rightarrow> int \<Rightarrow> pyval \<Rightarrow> pyval \<Rightarrow> server \<Rightarrow> session \<Rightarrow> command_run" where
  "CopyCommand_preform h now1 now2 p destination sv s =
     (case validate now1 now2 sv s of
        Inl e \<Rightarrow> (Inl e, sv, [])
      | Inr (ok, sv1, s1) \<Rightarrow>
          if \<not> ok then
            (Inr (finish (code_error 1 ''Session invalid or expired.'') new_command), sv1, [])
          else
            (case user_permissions sv1 s1 of
               Inl e \<Rightarrow> (Inl e, sv1, [])
             | Inr perm \<Rightarrow>
                 if \<not> (py_eq perm (PStr ''w'') \<or> py_eq perm (PStr ''a'')) then
                   (Inr (finish (code_error 19
                           ''User does not have permission to preform this command.'')
                           new_command), sv1, [])
                 else
                   (case p of
                      PStr ps \<Rightarrow>
                        if \<not> (validate_path h sv1 s1 ps
                                \<and> path_exists h (get_full_path h sv1 s1 ps)) then
                          (Inr (finish (code_error 18 ''Invalid path.'') new_command), sv1, [])
                        else
                          (case destination of
                             PStr ds \<Rightarrow>
                               if \<not> validate_path h sv1 s1 ds then
                                 (Inr (finish (code_error 18 ''Invalid destination path.'')
                                         new_command), sv1, [])
                               else
                                 (case shutil_copy h (get_full_path h sv1 s1 ps)
                                         (get_full_path h sv1 s1 ds) of
                                    None \<Rightarrow>
                                      (Inr (finish (code_only 0) new_command), sv1,
                                       [ShutilCopy (get_full_path h sv1 s1 ps)
                                          (get_full_path h sv1 s1 ds)])
                                  | Some e \<Rightarrow>
                                      if e = FileNotFoundError then
                                        (Inr (finish (code_error 3
                                                (''Path '' @ json_dumps h ps @ '' not found.''))
                                                new_command), sv1,
                                         [ShutilCopy (get_full_path h sv1 s1 ps)
                                            (get_full_path h sv1 s1 ds)])
                                      else
                                        (Inr (finish (code_error 4
                                                (''Error with copying path: ['' @ exc_str h e @ '']''))
                                                new_command), sv1,
                                         [ShutilCopy (get_full_path h sv1 s1 ps)
                                            (get_full_path h sv1 s1 ds)]))
                           | _ \<Rightarrow> (Inl TypeError, sv1, []))
                    | _ \<Rightarrow> (Inl TypeError, sv1, []))))"

text \<open>
  A command class, as the dispatcher uses it: called with the keyword arguments it either
  raises or gives a command whose \<open>preform\<close> runs on the server and the session.
  \<open>COMMANDS\<close> is the table of the classes by command ID; the classes that are not modelled
  are the parameter \<open>rest\<close>.
\<close>

type_synonym command_class = "pyval \<Rightarrow> py_error + (server \<Rightarrow> session \<Rightarrow> command_run)"





section \<open>server.py: the users store\<close>

text \<open>\<open>container[key] = value\<close> for a string key: only a dict takes it.\<close>

fun py_setitem :: "pyval \<Rightarrow> pyval \<Rightarrow> pyval \<Rightarrow> py_error + pyval" where
  "py_setitem (PDict d) k v = map_sum id PDict (dict_setitem d k v)"
| "py_setitem _ k v = Inl TypeError"

text \<open>\<open>d.update(other)\<close> in place: a dict gives its items; anything else is iterated as a
  sequence of pairs, and the pairs before a faulty one stay stored.\<close>

fun dict_update_seq ::
  "(pyval \<times> pyval) list \<Rightarrow> pyval list \<Rightarrow> py_error option \<times> (pyval \<times> pyval) list" where
  "dict_update_seq d [] = (None, d)"
| "dict_update_seq d (item # items) =
     (case unpack2 item of
        Inl e \<Rightarrow> (Some e, d)
      | Inr (k, v) \<Rightarrow>
          (case dict_setitem d k v of
             Inl e \<Rightarrow> (Some e, d)
           | Inr d' \<Rightarrow> dict_update_seq d' items))"

definition dict_update ::
  "(pyval \<times> pyval) list \<Rightarrow> pyval \<Rightarrow> py_error option \<times> (pyval \<times> pyval) list" where
  "dict_update d other =
     (case other of
        PDict kvs \<Rightarrow> (None, fold (\<lambda>(k, v) acc. dict_store acc k v) kvs d)
      | _ \<Rightarrow> (case py_iter other of Inl e \<Rightarrow> (Some e, d) | Inr items \<Rightarrow> dict_update_seq d items))"

text \<open>\<open>CSHServer.update_users\<close> rewrites the users file; the host says whether that raises.
  The methods below give the exception they raise, if any, and the server state they
  leave.\<close>

definition update_users :: "host \<Rightarrow> server \<Rightarrow> py_error option \<times> server" where
  "update_users h sv = (write_users h (users sv), sv)"

definition create_user :: "host \<Rightarrow> server \<Rightarrow> pyval \<Rightarrow> pyval \<Rightarrow> pyval \<Rightarrow> py_error option \<times> server" where
  "create_user h sv uname password permissions =
     (case hash_password h password of
        Inl e \<Rightarrow> (Some e, sv)
      | Inr hx \<Rightarrow>
          (case dict_setitem (users sv) uname
                  (PDict [(PStr ''username'', uname), (PStr ''password_hash'', PStr hx),
                          (PStr ''permissions'', permissions)]) of
             Inl e \<Rightarrow> (Some e, sv)
           | Inr us \<Rightarrow> update_users h (sv\<lparr>users := us\<rparr>)))"

definition update_user :: "host \<Rightarrow> server \<Rightarrow> pyval \<Rightarrow> pyval \<Rightarrow> py_error option \<times> server" where
  "update_user h sv uname to_modify =
     (case py_contains to_modify (PStr ''password'') of
        Inl e \<Rightarrow> (Some e, sv)
      | Inr has_password \<Rightarrow>
          (case (if has_password then
                   (case py_getitem to_modify (PStr ''password'') of
                      Inl e \<Rightarrow> Inl e
                    | Inr pw \<Rightarrow>
                        (case hash_password h pw of
                           Inl e \<Rightarrow> Inl e
                         | Inr hx \<Rightarrow> py_setitem to_modify (PStr ''password'') (PStr hx)))
                 else Inr to_modify) of
             Inl e \<Rightarrow> (Some e, sv)
           | Inr to_modify' \<Rightarrow>
               (case py_getitem (PDict (users sv)) uname of
                  Inl e \<Rightarrow> (Some e, sv)
                | Inr (PDict user) \<Rightarrow>
                    (case dict_update user to_modify' of
                       (Some e, user') \<Rightarrow>
                         (Some e, sv\<lparr>users := dict_store (users sv) uname (PDict user')\<rparr>)
                     | (None, user') \<Rightarrow>
                         update_users h (sv\<lparr>users := dict_store (users sv) uname (PDict user')\<rparr>))
                | Inr _ \<Rightarrow> (Some AttributeError, sv))))"

section \<open>admin.py\<close>

type_synonym admin_run = "(py_error + command) \<times> server"

type_synonym admin_class = "pyval \<Rightarrow> py_error + (server \<Rightarrow> admin_run)"

definition CreateUserCommand_preform :: "host \<Rightarrow> pyval \<Rightarrow> pyval \<Rightarrow> pyval \<Rightarrow> server \<Rightarrow> admin_run" where
  "CreateUserCommand_preform h uname password permissions sv =
     (case create_user h sv uname password permissions of
        (Some e, sv') \<Rightarrow>
          (Inr (finish (code_error 17 (''Error preforming command: ['' @ exc_str h e @ '']''))
                  new_command), sv')
      | (None, sv') \<Rightarrow> (Inr (finish (code_only 0) new_command), sv'))"

definition GetUserCommand_preform :: "host \<Rightarrow> pyval \<Rightarrow> server \<Rightarrow> admin_run" where
  "GetUserCommand_preform h uname sv =
     (case (case py_getitem (PDict (users sv)) uname of
              Inl e \<Rightarrow> Inl e
            | Inr user \<Rightarrow>
                (case py_getitem user (PStr ''password_hash'') of
                   Inl e \<Rightarrow> Inl e
                 | Inr password_hash \<Rightarrow>
                     (case py_getitem user (PStr ''permissions'') of
                        Inl e \<Rightarrow> Inl e
                      | Inr permissions \<Rightarrow> Inr (password_hash, permissions)))) of
        Inl e \<Rightarrow>
          (Inr (finish (code_error 17 (''Error preforming command: ['' @ exc_str h e @ '']''))
                  new_command), sv)
      | Inr (password_hash, permissions) \<Rightarrow>
          (Inr (finish (PDict [(PStr ''code'', PInt 0), (PStr ''password_hash'', password_hash),
                               (PStr ''permissions'', permissions)]) new_command), sv))"

definition UpdateUserCommand_preform :: "host \<Rightarrow> pyval \<Rightarrow> pyval \<Rightarrow> server \<Rightarrow> admin_run" where
  "UpdateUserCommand_preform h uname to_modify sv =
     (case update_user h sv uname to_modify of
        (Some e, sv') \<Rightarrow>
          (Inr (finish (code_error 17 (''Error preforming command: ['' @ exc_str h e @ '']''))
                  new_command), sv')
      | (None, sv') \<Rightarrow> (Inr (finish (code_only 0) new_command), sv'))"

definition CreateUserCommand :: "host \<Rightarrow> admin_class" where
  "CreateUserCommand h args =
     (case keyword_args [''username'', ''password'', ''permissions''] args of
        Inr [uname, password, permissions] \<Rightarrow>
          Inr (CreateUserCommand_preform h uname password permissions)
      | _ \<Rightarrow> Inl TypeError)"

definition GetUserCommand :: "host \<Rightarrow> admin_class" where
  "GetUserCommand h args =
     (case keyword_args [''username''] args of
        Inr [uname] \<Rightarrow> Inr (GetUserCommand_preform h uname)
      | _ \<Rightarrow> Inl TypeError)"

definition UpdateUserCommand :: "host \<Rightarrow> admin_class" where
  "UpdateUserCommand h args =
     (case keyword_args [''username'', ''to_modify''] args of
        Inr [uname, to_modify] \<Rightarrow> Inr (UpdateUserCommand_preform h uname to_modify)
      | _ \<Rightarrow> Inl TypeError)"

text \<open>The table of the admin command classes by ID; those not modelled are \<open>rest\<close>.\<close>

definition ADMIN_COMMANDS :: "host \<Rightarrow> (nat \<Rightarrow> admin_class) \<Rightarrow> nat \<Rightarrow> admin_class" where
  "ADMIN_COMMANDS h rest i =
     (if i = 1 then CreateUserCommand h
      else if i = 2 then GetUserCommand h
      else if i = 3 then UpdateUserCommand h
      else rest i)"

section \<open>connection.py\<close>

text \<open>
  A connection: the address of the peer, whether the socket is still open, and the
  responses written to it. An entry \<open>v\<close> of \<open>sent\<close> stands for the frame
  \<open>b'CSH' + len8 + serialize(v)\<close>.
\<close>

record connection =
  peer :: "string \<times> int"
  socket_open :: bool
  sent :: "pyval list"

text \<open>\<open>socket.send\<close> of the whole payload followed by \<open>socket.close()\<close>; sending on a closed
  socket raises OSError.\<close>

definition socket_send :: "pyval \<Rightarrow> connection \<Rightarrow> py_error + connection" where
  "socket_send v c =
     (if socket_open c then Inr (c\<lparr>sent := sent c @ [v], socket_open := False\<rparr>)
      else Inl OSError)"

text \<open>
  \<open>Connection.respond\<close>. It calls itself with \<open>error=True\<close> on a dict the server builds
  (code 21 after a SerializingException, code 7 after any other exception), and that
  inner call, \<open>respond_error\<close>, gives up silently when it fails in turn.
\<close>

definition respond_error :: "pyval \<Rightarrow> connection \<Rightarrow> connection" where
  "respond_error d c =
     (case serialize d of
        Inl e \<Rightarrow> c
      | Inr binary \<Rightarrow>
          (case to_bytes_unsigned (int (length binary)) 8 of
             Inl e \<Rightarrow> c
           | Inr len8 \<Rightarrow> (case socket_send d c of Inl e \<Rightarrow> c | Inr c' \<Rightarrow> c')))"

definition respond :: "host \<Rightarrow> pyval \<Rightarrow> bool \<Rightarrow> connection \<Rightarrow> connection" where
  "respond h d error c =
     (case serialize d of
        Inl e \<Rightarrow>
          respond_error
            (code_error 21 (''Serialization error. Data might be too big. Consider sending it in packets. [''
                            @ exc_str h e @ '']'')) c
      | Inr binary \<Rightarrow>
          (case (case to_bytes_unsigned (int (length binary)) 8 of
                   Inl e \<Rightarrow> Inl e
                 | Inr len8 \<Rightarrow> socket_send d c) of
             Inr c' \<Rightarrow> c'
           | Inl e \<Rightarrow>
               if \<not> error then
                 respond_error (code_error 7 (''Error responding: ['' @ exc_str h e @ '']'')) c
               else c))"

text \<open>\<open>bool(v)\<close>: the truth value of a value in a condition.\<close>

fun py_truthy :: "pyval \<Rightarrow> bool" where
  "py_truthy (PInt n) = (n \<noteq> 0)"
| "py_truthy (PFloat x) = (x \<noteq> FNum 0)"
| "py_truthy (PStr s) = (s \<noteq> [])"
| "py_truthy (PBytes b) = (b \<noteq> [])"
| "py_truthy (PList xs) = (xs \<noteq> [])"
| "py_truthy (PTuple xs) = (xs \<noteq> [])"
| "py_truthy (PDict kvs) = (kvs \<noteq> [])"
| "py_truthy PNone = False"
| "py_truthy (PBool b) = b"
| "py_truthy (PSet xs) = (xs \<noteq> [])"

text \<open>
  The \<open>expiration_time\<close> of a login request as the \<open>expire_after\<close> of the session: an integer
  of seconds or None. \<open>Session.__init__\<close> ignores a value that is false in a condition, and
  \<open>timedelta(seconds=v)\<close> raises TypeError for a true value that is not a number. The
  request is a value that \<open>deserialize\<close> returned, which holds no float (tag 1 raises), so
  a float number of seconds does not arrive; it is answered here like a value that is not
  a number.
\<close>

definition expire_seconds :: "pyval \<Rightarrow> py_error + int option" where
  "expire_seconds v =
     (case v of
        PNone \<Rightarrow> Inr None
      | PInt n \<Rightarrow> Inr (Some n)
      | PBool b \<Rightarrow> Inr (Some (if b then 1 else 0))
      | _ \<Rightarrow> if py_truthy v then Inl TypeError else Inr None)"

text \<open>What a handler leaves: the exception that escaped it, if any, the server state, the
  connection and the file-system primitives called.\<close>

type_synonym handled = "py_error option \<times> server \<times> connection \<times> fs_call list"

text \<open>\<open>'username' in self.data and 'password' in self.data\<close>\<close>

definition has_both :: "pyval \<Rightarrow> string \<Rightarrow> string \<Rightarrow> py_error + bool" where
  "has_both req a b =
     (case py_contains req (PStr a) of
        Inl e \<Rightarrow> Inl e
      | Inr x \<Rightarrow> if x then py_contains req (PStr b) else Inr False)"

text \<open>The number of sessions of a user:
  \<open>[(1 if i.username == username else 0) for i in list(self.server.sessions.values())].count(1)\<close>\<close>

definition num_existing_sessions :: "server \<Rightarrow> pyval \<Rightarrow> int" where
  "num_existing_sessions sv uname =
     int (length (filter (\<lambda>(sid, i). py_eq (username i) uname) (sessions sv)))"

text \<open>
  \<open>Connection.log_in\<close>. \<open>new_id\<close> is the session ID the generation worker hands back through
  the queue item, \<open>now\<close> the reading of the clock. The error branches for a missing field
  (12), an unknown user (13) and a wrong password (14) respond and do not return.
\<close>

definition log_in :: "host \<Rightarrow> string \<Rightarrow> int \<Rightarrow> pyval \<Rightarrow> server \<Rightarrow> connection \<Rightarrow> handled" where
  "log_in h new_id now req sv c =
     (case has_both req ''username'' ''password'' of
        Inl e \<Rightarrow> (Some e, sv, c, [])
      | Inr both \<Rightarrow>
     let c1 = (if \<not> both then
                 respond h (code_error 12 ''Log in command must have username and password provided.'')
                   True c
               else c) in
     (case py_getitem req (PStr ''username'') of
        Inl e \<Rightarrow> (Some e, sv, c1, [])
      | Inr uname \<Rightarrow>
     (case py_getitem req (PStr ''password'') of
        Inl e \<Rightarrow> (Some e, sv, c1, [])
      | Inr password \<Rightarrow>
     (case hash_password h password of
        Inl e \<Rightarrow> (Some e, sv, c1, [])
      | Inr password_hash \<Rightarrow>
     (case py_contains (PDict (users sv)) uname of
        Inl e \<Rightarrow> (Some e, sv, c1, [])
      | Inr known \<Rightarrow>
     let c2 = (if \<not> known then respond h (code_error 13 ''User doesn't exist.'') True c1
               else c1) in
     (case py_getitem (PDict (users sv)) uname of
        Inl e \<Rightarrow> (Some e, sv, c2, [])
      | Inr user \<Rightarrow>
     (case py_getitem user (PStr ''password_hash'') of
        Inl e \<Rightarrow> (Some e, sv, c2, [])
      | Inr stored \<Rightarrow>
     let c3 = (if \<not> py_eq stored (PStr password_hash) then
                 respond h (code_error 14 ''Invalid password.'') True c2
               else c2) in
     if (case session_limit sv of
           None \<Rightarrow> False
         | Some limit \<Rightarrow> limit \<noteq> 0 \<and> num_existing_sessions sv uname \<ge> limit)
     then (None, sv, respond h (code_error 24 ''Too many sessions for user.'') True c3, [])
     else
     (case (if allow_change_expire sv then
              (case py_contains req (PStr ''expiration_time'') of
                 Inl e \<Rightarrow> Inl e
               | Inr given \<Rightarrow>
                   if given then
                     (case py_getitem req (PStr ''expiration_time'') of
                        Inl e \<Rightarrow> Inl e
                      | Inr expiration_time \<Rightarrow> expire_seconds expiration_time)
                   else Inr (default_expire sv))
            else Inr (default_expire sv)) of
        Inl e \<Rightarrow> (Some e, sv, c3, [])
      | Inr expiration_time \<Rightarrow>
          (case Session (peer c) new_id uname now expiration_time of
             Inl e \<Rightarrow> (Some e, sv, c3, [])
           | Inr new_session \<Rightarrow>
               (None,
                sv\<lparr>sessions := AList.update new_id new_session (sessions sv)\<rparr>,
                respond h (PDict [(PStr ''code'', PInt 0), (PStr ''session_id'', PStr new_id),
                                 (PStr ''timestamp'', utctimetuple h now)]) False c3,
                []))))))))))"





definition ACCEPTABLE_ADMIN_COMMAND_IDS :: pyval where
  "ACCEPTABLE_ADMIN_COMMAND_IDS =
     PList [PInt 0, PInt 1, PInt 2, PInt 3, PInt 4, PInt 5, PInt 6, PInt 7, PInt 8, PInt 9,
            PInt 10, PInt 11, PInt 12, PInt 13, PInt 14, PInt 15]"

definition py_index :: "pyval \<Rightarrow> py_error + nat" where
  "py_index v =
     (case v of
        PInt n \<Rightarrow> Inr (nat n)
      | PBool b \<Rightarrow> Inr (if b then 1 else 0)
      | _ \<Rightarrow> Inl TypeError)"

text \<open>The \<open>try\<close> block of \<open>Connection.admin\<close>: it raises (\<open>Inl\<close>), or has responded and
  returned (\<open>Inr None\<close>), or gives the command it has run. The log line concatenates the
  user name to a string, a TypeError unless it is one.\<close>

definition admin_try ::
  "host \<Rightarrow> (nat \<Rightarrow> admin_class) \<Rightarrow> pyval \<Rightarrow> pyval \<Rightarrow> pyval \<Rightarrow> server \<Rightarrow> connection
     \<Rightarrow> (py_error + command option) \<times> server \<times> connection" where
  "admin_try h table req uname admin_command_id sv c =
     (case py_contains req (PStr ''args'') of
        Inl e \<Rightarrow> (Inl e, sv, c)
      | Inr has_args \<Rightarrow>
          if \<not> has_args then
            (Inr None, sv, respond h (code_error 16 ''Arguments must be included in data.'') True c)
          else
            (case py_getitem req (PStr ''args'') of
               Inl e \<Rightarrow> (Inl e, sv, c)
             | Inr args \<Rightarrow>
                 (case py_index admin_command_id of
                    Inl e \<Rightarrow> (Inl e, sv, c)
                  | Inr i \<Rightarrow>
                      (case uname of
                         PStr _ \<Rightarrow>
                           (case table i args of
                              Inl e \<Rightarrow>
                                (Inr None, sv,
                                 respond h (code_error 22
                                   (''Error with creating command: ['' @ exc_str h e @ '']'')) True c)
                            | Inr preform \<Rightarrow>
                                (case preform sv of
                                   (Inl e, sv') \<Rightarrow> (Inl e, sv', c)
                                 | (Inr cmd, sv') \<Rightarrow> (Inr (Some cmd), sv', c)))
                       | _ \<Rightarrow> (Inl TypeError, sv, c)))))"

text \<open>\<open>self.respond(command.data, error=(not command.data['code'] == 0))\<close>\<close>

definition respond_command :: "host \<Rightarrow> command \<Rightarrow> connection \<Rightarrow> py_error + connection" where
  "respond_command h cmd c =
     (case data cmd of
        None \<Rightarrow> Inl TypeError
      | Some d \<Rightarrow>
          (case py_getitem d (PStr ''code'') of
             Inl e \<Rightarrow> Inl e
           | Inr cd \<Rightarrow> Inr (respond h d (\<not> py_eq cd (PInt 0)) c)))"

text \<open>\<open>Connection.admin\<close>. As in \<open>log_in\<close>, the branches for codes 12, 13 and 14 respond and
  do not return.\<close>

definition admin :: "host \<Rightarrow> (nat \<Rightarrow> admin_class) \<Rightarrow> pyval \<Rightarrow> server \<Rightarrow> connection \<Rightarrow> handled" where
  "admin h table req sv c =
     (case has_both req ''username'' ''password'' of
        Inl e \<Rightarrow> (Some e, sv, c, [])
      | Inr both \<Rightarrow>
     let c1 = (if \<not> both then
                 respond h (code_error 12 ''Log in command must have username and password provided.'')
                   True c
               else c) in
     (case py_getitem req (PStr ''username'') of
        Inl e \<Rightarrow> (Some e, sv, c1, [])
      | Inr uname \<Rightarrow>
     (case py_getitem req (PStr ''password'') of
        Inl e \<Rightarrow> (Some e, sv, c1, [])
      | Inr password \<Rightarrow>
     (case hash_password h password of
        Inl e \<Rightarrow> (Some e, sv, c1, [])
      | Inr password_hash \<Rightarrow>
     (case py_contains (PDict (users sv)) uname of
        Inl e \<Rightarrow> (Some e, sv, c1, [])
      | Inr known \<Rightarrow>
     let c2 = (if \<not> known then respond h (code_error 13 ''User doesn't exist.'') True c1
               else c1) in
     (case py_getitem (PDict (users sv)) uname of
        Inl e \<Rightarrow> (Some e, sv, c2, [])
      | Inr user \<Rightarrow>
     (case py_getitem user (PStr ''password_hash'') of
        Inl e \<Rightarrow> (Some e, sv, c2, [])
      | Inr stored \<Rightarrow>
     let c3 = (if \<not> py_eq stored (PStr password_hash) then
                 respond h (code_error 14 ''Invalid password.'') True c2
               else c2) in
     (case py_contains req (PStr ''admin_command'') of
        Inl e \<Rightarrow> (Some e, sv, c3, [])
      | Inr has_id \<Rightarrow>
     if \<not> has_id then
       (None, sv, respond h (code_error 9 ''Command ID not in data.'') True c3, [])
     else
     (case py_getitem req (PStr ''admin_command'') of
        Inl e \<Rightarrow> (Some e, sv, c3, [])
      | Inr admin_command_id \<Rightarrow>
     (case py_contains ACCEPTABLE_ADMIN_COMMAND_IDS admin_command_id of
        Inl e \<Rightarrow> (Some e, sv, c3, [])
      | Inr acceptable \<Rightarrow>
     if \<not> acceptable then
       (None, sv, respond h (code_error 10 ''Command ID is invalid.'') True c3, [])
     else
     (case admin_try h table req uname admin_command_id sv c3 of
        (Inl e, sv', c4) \<Rightarrow>
          (None, sv',
           respond h (code_error 17 (''Error preforming command: ['' @ exc_str h e @ '']'')) True c4,
           [])
      | (Inr None, sv', c4) \<Rightarrow> (None, sv', c4, [])
      | (Inr (Some cmd), sv', c4) \<Rightarrow>
          (case respond_command h cmd c4 of
             Inl e \<Rightarrow> (Some e, sv', c4, [])
           | Inr c5 \<Rightarrow> (None, sv', c5, [])))))))))))))"


text \<open>
  \<open>Connection.command\<close>: it raises (\<open>Inl\<close>), or has responded and returns None
  (\<open>Inr None\<close>), or returns the command it has run.
\<close>

definition command ::
  "host \<Rightarrow> (nat \<Rightarrow> command_class) \<Rightarrow> pyval \<Rightarrow> pyval \<Rightarrow> pyval \<Rightarrow> session \<Rightarrow> server \<Rightarrow> connection
     \<Rightarrow> (py_error + command option) \<times> server \<times> connection \<times> fs_call list" where
  "command h table req command_id uname s sv c =
     (case py_contains req (PStr ''args'') of
        Inl e \<Rightarrow> (Inl e, sv, c, [])
      | Inr has_args \<Rightarrow>
          if \<not> has_args then
            (Inr None, sv,
             respond h (code_error 16 ''Arguments must be included in data.'') True c, [])
          else
            (case py_getitem req (PStr ''args'') of
               Inl e \<Rightarrow> (Inl e, sv, c, [])
             | Inr args \<Rightarrow>
                 (case py_index command_id of
                    Inl e \<Rightarrow> (Inl e, sv, c, [])
                  | Inr i \<Rightarrow>
                      (case uname of
                         PStr _ \<Rightarrow>
                           (case table i args of
                              Inl e \<Rightarrow>
                                (Inr None, sv,
                                 respond h (code_error 22
                                   (''Error with creating command: ['' @ exc_str h e @ '']'')) True c,
                                 [])
                            | Inr preform \<Rightarrow>
                                (case preform sv s of
                                   (Inl e, sv', fs) \<Rightarrow> (Inl e, sv', c, fs)
                                 | (Inr cmd, sv', fs) \<Rightarrow> (Inr (Some cmd), sv', c, fs)))
                       | _ \<Rightarrow> (Inl TypeError, sv, c, [])))))"




section \<open>A concrete server\<close>

text \<open>
  A host, a server with one user and one session, used where a theorem is evaluated at a
  concrete input. SHA-256 is not modelled: on this host a tagging function stands for it.
\<close>

definition demo_host :: host where
  "demo_host =
     \<lparr>getcwd = ''/home/csh'', path_exists = (\<lambda>p. p = ''/srv/root/a.txt''),
      os_rename = (\<lambda>src dst. None), shutil_copy = (\<lambda>src dst. None),
      write_users = (\<lambda>us. None), sha256_hex = (\<lambda>p. ''sha256('' @ p @ '')''),
      json_dumps = (\<lambda>p. [CHR 0x22] @ p @ [CHR 0x22]), exc_str = (\<lambda>e. ''error''),
      utctimetuple = (\<lambda>t. PTuple []), os_name = ''posix''\<rparr>"

definition demo_session :: session where
  "demo_session =
     \<lparr>addr = (''10.0.0.7'', 50000), session_id = ''5e55'', username = PStr ''alice'',
      timestamp = 40000000, expire_after = Some 60, current_directory = ''.'',
      expires = Some 100000000\<rparr>"

definition demo_user :: pyval where
  "demo_user =
     PDict [(PStr ''username'', PStr ''alice''), (PStr ''password_hash'', PStr ''sha256(old)''),
            (PStr ''permissions'', PStr ''w'')]"

definition demo_server :: server where
  "demo_server =
     \<lparr>path = ''/srv/root'', server_name = ''csh'', users = [(PStr ''alice'', demo_user)],
      sessions = [(''5e55'', demo_session)], session_limit = None, default_expire = Some 60,
      allow_change_expire = True\<rparr>"

definition demo_renewed :: server where
  "demo_renewed =
     demo_server\<lparr>sessions := [(''5e55'', demo_session\<lparr>expires := Some 110000001\<rparr>)]\<rparr>"

definition demo_connection :: connection where
  "demo_connection = \<lparr>peer = (''10.0.0.7'', 50001), socket_open = True, sent = []\<rparr>"

text \<open>
  A session created on 2026-11-03 at 12:00:00 with a time to live of 251608593599 seconds,
  which \<open>Session\<close> accepts: it expires at 9999-12-31 23:59:59.
\<close>

definition far_session :: session where
  "far_session =
     \<lparr>addr = (''10.0.0.7'', 50000), session_id = ''f4r'', username = PStr ''alice'',
      timestamp = 63929304000000000, expire_after = Some 251608593599,
      current_directory = ''.'', expires = Some 315537897599000000\<rparr>"

definition far_server :: server where
  "far_server = demo_server\<lparr>sessions := [(''f4r'', far_session)]\<rparr>"






section \<open>Properties of the integer encoding\<close>

lemma le_bytes_numeral [simp]:
  "le_bytes n (numeral k) = word_of_int (n mod 256) # le_bytes (n div 256) (pred_numeral k)"
  by (simp add: numeral_eq_Suc)

lemma length_le_bytes: "length (le_bytes n k) = k"
  by (induction n k rule: le_bytes.induct) auto

lemma from_le_bytes: "from_bytes_unsigned (le_bytes n k) = n mod 2 ^ (8 * k)"
proof (induction n k rule: le_bytes.induct)
  case (1 n) then show ?case by simp
next
  case (2 n k)
  have a: "uint (word_of_int (n mod 256) :: byte) = n mod 256"
    by (simp add: uint_word_of_int)
  have b: "(2::int) ^ (8 * Suc k) = 256 * 2 ^ (8 * k)" by (simp add: power_add)
  have "n mod (256 * 2 ^ (8 * k)) = n mod 256 + 256 * (n div 256 mod 2 ^ (8 * k))"
    using zmod_zmult2_eq [of "2 ^ (8 * k)" n 256] by simp
  with a b 2 show ?case by simp
qed

lemma bits_of_nat_bound: "n < 2 ^ bits_of_nat n"
proof (induction n rule: bits_of_nat.induct)
  case (1 n)
  show ?case
  proof (cases "n = 0")
    case True then show ?thesis by (simp add: bits_of_nat.simps)
  next
    case False
    with 1 have "n div 2 < 2 ^ bits_of_nat (n div 2)" by simp
    then have "n < 2 * 2 ^ bits_of_nat (n div 2)" by linarith
    with False show ?thesis by (subst bits_of_nat.simps) simp
  qed
qed

lemma abs_lt_bit_length: "\<bar>n\<bar> < 2 ^ bit_length n"
proof -
  have "int (nat \<bar>n\<bar>) < int (2 ^ bits_of_nat (nat \<bar>n\<bar>))"
    using bits_of_nat_bound [of "nat \<bar>n\<bar>"] by (simp only: of_nat_less_iff)
  then show ?thesis by (simp add: bit_length_def)
qed

lemma serialize_int_fits:
  "- (2 ^ (8 * ((bit_length n + 7) div 8 + 1) - 1)) \<le> n
   \<and> n < 2 ^ (8 * ((bit_length n + 7) div 8 + 1) - 1)"
proof -
  have "bit_length n \<le> 8 * ((bit_length n + 7) div 8 + 1) - 1" by arith
  then have "(2::int) ^ bit_length n \<le> 2 ^ (8 * ((bit_length n + 7) div 8 + 1) - 1)"
    by (rule power_increasing) simp
  with abs_lt_bit_length [of n] show ?thesis by linarith
qed

lemma serialize_int_eq: "serialize_int n = Inr (le_bytes n ((bit_length n + 7) div 8 + 1))"
  using serialize_int_fits [of n] by (simp add: serialize_int_def to_bytes_signed_def)

lemma from_bytes_signed_le_bytes:
  assumes "0 < k" "- (2 ^ (8 * k - 1)) \<le> n" "n < 2 ^ (8 * k - 1)"
  shows "from_bytes_signed (le_bytes n k) = n"
proof -
  have p: "(2::int) ^ (8 * k) = 2 * 2 ^ (8 * k - 1)"
    using assms(1) by (metis Suc_pred' mult_pos_pos power_Suc zero_less_numeral)
  have ne: "le_bytes n k \<noteq> []" using assms(1) length_le_bytes [of n k] by auto
  show ?thesis
  proof (cases "0 \<le> n")
    case True
    then have "n mod 2 ^ (8 * k) = n" using assms(3) p by simp
    then show ?thesis using assms(3) ne
      by (simp add: from_bytes_signed_def from_le_bytes length_le_bytes Let_def)
  next
    case False
    have "0 \<le> n + 2 ^ (8 * k)" "n + 2 ^ (8 * k) < 2 ^ (8 * k)"
      using assms(2) p False by auto
    then have "(n + 2 ^ (8 * k)) mod 2 ^ (8 * k) = n + 2 ^ (8 * k)"
      by (rule mod_pos_pos_trivial)
    then have "n mod 2 ^ (8 * k) = n + 2 ^ (8 * k)"
      by simp
    then show ?thesis using assms(2) ne p False
      by (simp add: from_bytes_signed_def from_le_bytes length_le_bytes Let_def)
  qed
qed

lemma from_bytes_signed_serialize:
  "from_bytes_signed (le_bytes n ((bit_length n + 7) div 8 + 1)) = n"
  using serialize_int_fits [of n] by (intro from_bytes_signed_le_bytes) auto

lemma deserialize_serialize_int:
  assumes "serialize_int n = Inr bs"
  shows "deserialize_int bs = n"
proof -
  from assms have "bs = le_bytes n ((bit_length n + 7) div 8 + 1)"
    by (simp add: serialize_int_eq)
  then show ?thesis
    by (simp only: deserialize_int_def from_bytes_signed_serialize)
qed

text \<open>
  C8, as the code has it. For every integer \<open>n\<close>, \<open>serialize_int\<close> returns (it never
  raises OverflowError) a payload of exactly \<open>(bit_length n + 7) div 8 + 1\<close> bytes whose
  little-endian signed two's-complement reading is \<open>n\<close>. That length is at least
  \<open>bit_length n div 8 + 1\<close>, the number the specification gives, so the sign bit always
  fits; it is not always the minimum.
\<close>

theorem serialize_int_payload:
  "\<exists>bs. serialize_int n = Inr bs
        \<and> length bs = (bit_length n + 7) div 8 + 1
        \<and> from_bytes_signed bs = n
        \<and> bit_length n div 8 + 1 \<le> length bs"
proof -
  let ?k = "(bit_length n + 7) div 8 + 1"
  have "from_bytes_signed (le_bytes n ?k) = n"
    using serialize_int_fits [of n] by (intro from_bytes_signed_le_bytes) auto
  moreover have "bit_length n div 8 + 1 \<le> ?k" by simp
  ultimately show ?thesis
    by (simp only: serialize_int_eq length_le_bytes sum.inject simp_thms ex_simps)
qed

text \<open>
  C8 as stated fails at \<open>n = 1\<close>: the bit length is 1, the specification's formula gives
  \<open>1 div 8 + 1 = 1\<close> byte, and the code emits the two bytes \<open>01 00\<close>.
\<close>

theorem serialize_int_size_counterexample:
  "serialize_int 1 = Inr [1, 0] \<and> length [1, 0 :: byte] \<noteq> bit_length 1 div 8 + 1"
  by (simp add: serialize_int_def to_bytes_signed_def bit_length_def bits_of_nat.simps)

section \<open>Session validity\<close>

lemma timedelta_in_range:
  assumes "- 315537897600 \<le> T" and "T \<le> 315537897600"
  shows "timedelta T = Inr (T * 1000000)"
proof -
  have "(- 315537897600) div 86400 \<le> T div 86400"
    using assms(1) by (rule zdiv_mono1) simp
  moreover have "T div 86400 \<le> 315537897600 div 86400"
    using assms(2) by (rule zdiv_mono1) simp
  ultimately have "- 999999999 \<le> T div 86400 \<and> T div 86400 \<le> 999999999"
    by simp
  then show ?thesis by (simp add: timedelta_def)
qed

lemma renewal_in_range:
  assumes "0 \<le> t" and "t \<le> datetime_max"
      and "0 \<le> t + T * 1000000" and "t + T * 1000000 \<le> datetime_max"
  shows "datetime_add t (timedelta T) = Inr (t + T * 1000000)"
proof -
  from assms have "- 315537897600 \<le> T" "T \<le> 315537897600"
    by (simp_all add: datetime_max_def)
  then have "timedelta T = Inr (T * 1000000)" by (rule timedelta_in_range)
  with assms(3,4) show ?thesis by (simp add: datetime_add_def)
qed

lemma renewal_out_of_range:
  assumes "\<not> (0 \<le> t + T * 1000000 \<and> t + T * 1000000 \<le> datetime_max)"
  shows "datetime_add t (timedelta T) = Inl OverflowError"
  using assms by (auto simp: datetime_add_def timedelta_def)

text \<open>
  C9, as the code has it. For a session that is in the table, has a time to live of \<open>T\<close>
  seconds and expires at \<open>e\<close>, and a validity check that reads the clock at \<open>t0\<close> and
  again, not earlier, at \<open>t1\<close> for the renewal:
  \<^item> if \<open>t0 < e\<close> and the renewed expiry, \<open>t1\<close> plus \<open>T\<close> seconds, is a \<open>datetime\<close> (it does
    not pass \<open>datetime.max\<close>, the end of the year 9999), the check succeeds and leaves the
    session, in the table too, expiring no earlier than \<open>t0\<close> plus \<open>T\<close> seconds;
  \<^item> if \<open>t0 < e\<close> and the renewed expiry is not a \<open>datetime\<close>, the check raises OverflowError
    instead of succeeding;
  \<^item> if \<open>t0\<close> is past \<open>e\<close>, the check reports the session invalid and removes it from the
    table.
\<close>

theorem validate_renews:
  assumes "map_of (sessions sv) (session_id s) = Some s"
      and "expire_after s = Some T" and "expires s = Some e"
      and "0 \<le> t0" and "t0 \<le> t1" and "t1 \<le> datetime_max"
  shows "(t0 < e \<and> 0 \<le> t1 + T * 1000000 \<and> t1 + T * 1000000 \<le> datetime_max \<longrightarrow>
           (\<exists>sv' s' x. validate t0 t1 sv s = Inr (True, sv', s')
              \<and> expires s' = Some x \<and> t0 + T * 1000000 \<le> x
              \<and> map_of (sessions sv') (session_id s) = Some s'))
       \<and> (t0 < e \<and> \<not> (0 \<le> t1 + T * 1000000 \<and> t1 + T * 1000000 \<le> datetime_max) \<longrightarrow>
           validate t0 t1 sv s = Inl OverflowError)
       \<and> (e < t0 \<longrightarrow>
           (\<exists>sv'. validate t0 t1 sv s = Inr (False, sv', s)
              \<and> map_of (sessions sv') (session_id s) = None))"
proof (intro conjI impI)
  assume a: "t0 < e \<and> 0 \<le> t1 + T * 1000000 \<and> t1 + T * 1000000 \<le> datetime_max"
  from assms(4,5) have "0 \<le> t1" by simp
  with a assms(6) have "datetime_add t1 (timedelta T) = Inr (t1 + T * 1000000)"
    by (intro renewal_in_range) simp_all
  with a assms(1,2,3,5)
  show "\<exists>sv' s' x. validate t0 t1 sv s = Inr (True, sv', s')
          \<and> expires s' = Some x \<and> t0 + T * 1000000 \<le> x
          \<and> map_of (sessions sv') (session_id s) = Some s'"
    by (simp add: validate_def Let_def update_conv')
next
  assume a: "t0 < e \<and> \<not> (0 \<le> t1 + T * 1000000 \<and> t1 + T * 1000000 \<le> datetime_max)"
  then have "datetime_add t1 (timedelta T) = Inl OverflowError"
    by (intro renewal_out_of_range) simp
  with a assms(1,2,3) show "validate t0 t1 sv s = Inl OverflowError"
    by (simp add: validate_def)
next
  assume "e < t0"
  with assms(1,2,3)
  show "\<exists>sv'. validate t0 t1 sv s = Inr (False, sv', s)
          \<and> map_of (sessions sv') (session_id s) = None"
    by (simp add: validate_def delete_conv')
qed

theorem validate_renews_witness:
  "map_of (sessions demo_server) (session_id demo_session) = Some demo_session
   \<and> expire_after demo_session = Some 60 \<and> expires demo_session = Some 100000000
   \<and> validate 50000000 50000001 demo_server demo_session
       = Inr (True,
              demo_server\<lparr>sessions := [(''5e55'', demo_session\<lparr>expires := Some 110000001\<rparr>)]\<rparr>,
              demo_session\<lparr>expires := Some 110000001\<rparr>)
   \<and> validate 150000000 150000001 demo_server demo_session
       = Inr (False, demo_server\<lparr>sessions := []\<rparr>, demo_session)
   \<and> map_of (sessions far_server) (session_id far_session) = Some far_session
   \<and> expire_after far_session = Some 251608593599
   \<and> expires far_session = Some 315537897599000000
   \<and> validate 63929304001000000 63929304001000001 far_server far_session
       = Inl OverflowError"
  using validate_renews [of demo_server demo_session 60 100000000 50000000 50000001]
        validate_renews [of demo_server demo_session 60 100000000 150000000 150000001]
        validate_renews [of far_server far_session 251608593599 315537897599000000
          63929304001000000 63929304001000001]
  by (simp add: demo_server_def demo_session_def far_server_def far_session_def validate_def
        Let_def timedelta_def datetime_add_def datetime_max_def AList.delete_eq)

text \<open>
  C9 as stated fails for a time to live that a client may ask for at login. On 2026-11-03
  at 12:00:00, \<open>Session\<close> accepts 251608593599 seconds: the session expires at
  9999-12-31 23:59:59. Two seconds later the session has not expired, the renewal passes
  \<open>datetime.max\<close>, and the validity check raises OverflowError where the claim has it
  succeed.
\<close>

theorem validate_overflow_counterexample:
  "Session (''10.0.0.7'', 50000) ''f4r'' (PStr ''alice'') 63929304000000000 (Some 251608593599)
     = Inr far_session
   \<and> map_of (sessions far_server) (session_id far_session) = Some far_session
   \<and> expires far_session = Some 315537897599000000
   \<and> (63929304002000000 :: int) < 315537897599000000
   \<and> validate 63929304002000000 63929304002000001 far_server far_session = Inl OverflowError"
  by (simp add: Session_def far_server_def far_session_def demo_server_def validate_def
        timedelta_def datetime_add_def datetime_max_def normpath_def)

section \<open>Logout\<close>



section \<open>Responding\<close>

lemma to_bytes_unsigned_8:
  assumes "n < 2 ^ 64"
  shows "to_bytes_unsigned (int n) 8 = Inr (le_bytes (int n) 8)"
proof -
  have "int n < int (2 ^ 64)" using assms by (simp only: of_nat_less_iff)
  moreover have "int (2 ^ 64) = 2 ^ (8 * 8)" by simp
  ultimately have "int n < 2 ^ (8 * 8)" by (simp only:)
  then show ?thesis unfolding to_bytes_unsigned_def by (simp only: of_nat_0_le_iff simp_thms if_True)
qed

lemma tagged_Inr:
  "length p < 2 ^ 64 \<Longrightarrow> tagged t (Inr p) = Inr (t # le_bytes (int (length p)) 8 @ p)"
  unfolding tagged_def by (simp only: to_bytes_unsigned_8 sum.case)

lemma respond_closed: "\<not> socket_open c \<Longrightarrow> respond h d err c = c"
  by (simp add: respond_def respond_error_def socket_send_def split: sum.splits)

lemma respond_open:
  "serialize d = Inr b \<Longrightarrow> length b < 2 ^ 64 \<Longrightarrow> socket_open c \<Longrightarrow>
   respond h d err c = c\<lparr>sent := sent c @ [d], socket_open := False\<rparr>"
  unfolding respond_def socket_send_def by (simp only: to_bytes_unsigned_8 sum.case if_True)

lemma length_bound_small: "n < 1000000 \<Longrightarrow> (n::nat) < 2 ^ 64"
proof -
  have "(1000000::nat) < 2 ^ 64" by simp
  then show "n < 1000000 \<Longrightarrow> n < 2 ^ 64" by (rule less_trans [rotated])
qed

lemma serialize_invalid_password:
  "\<exists>b. serialize (code_error 14 ''Invalid password.'') = Inr b \<and> length b < 2 ^ 64"
  by (simp add: code_error_def items_list_def tagged_Inr length_bound_small serialize_int_eq
        bit_length_def bits_of_nat.simps serialize_string_def length_le_bytes)

lemma respond_invalid_password:
  "socket_open c \<Longrightarrow>
   respond h (code_error 14 ''Invalid password.'') err c
     = c\<lparr>sent := sent c @ [code_error 14 ''Invalid password.''], socket_open := False\<rparr>"
  using serialize_invalid_password by (auto intro: respond_open)



section \<open>Authentication failure\<close>

lemma demo_new_session:
  "Session (''10.0.0.7'', 50001) ''n3w1d'' (PStr ''alice'') 70000000 (Some 60)
   = Inr \<lparr>addr = (''10.0.0.7'', 50001), session_id = ''n3w1d'', username = PStr ''alice'',
          timestamp = 70000000, expire_after = Some 60, current_directory = ''.'',
          expires = Some 130000000\<rparr>"
  by (simp add: Session_def timedelta_def datetime_add_def datetime_max_def normpath_def)

text \<open>
  C1, at a failing input. The user alice exists and the password sent is wrong.
  \<^item> \<open>log_in\<close> writes the code-14 response, which closes the socket, and goes on: it stores
    a new session for alice in the session table (its own success response then fails on
    the closed socket and is lost).
  \<^item> \<open>admin\<close> writes the code-14 response and goes on: it runs the requested command, here
    \<open>create_user\<close>, which adds the user mallory with admin permissions.
\<close>

theorem wrong_password_is_not_final:
  "log_in demo_host ''n3w1d'' 70000000
     (PDict [(PStr ''command'', PStr ''L''), (PStr ''username'', PStr ''alice''),
             (PStr ''password'', PStr ''wrong'')])
     demo_server demo_connection
   = (None,
      demo_server\<lparr>sessions :=
        [(''5e55'', demo_session),
         (''n3w1d'',
          \<lparr>addr = (''10.0.0.7'', 50001), session_id = ''n3w1d'', username = PStr ''alice'',
           timestamp = 70000000, expire_after = Some 60, current_directory = ''.'',
           expires = Some 130000000\<rparr>)]\<rparr>,
      demo_connection\<lparr>sent := [code_error 14 ''Invalid password.''], socket_open := False\<rparr>,
      [])
   \<and> admin demo_host (ADMIN_COMMANDS demo_host (\<lambda>i args. Inl TypeError))
     (PDict [(PStr ''command'', PStr ''A''), (PStr ''username'', PStr ''alice''),
             (PStr ''password'', PStr ''wrong''), (PStr ''admin_command'', PInt 1),
             (PStr ''args'',
              PDict [(PStr ''username'', PStr ''mallory''), (PStr ''password'', PStr ''pw''),
                     (PStr ''permissions'', PStr ''a'')])])
     demo_server demo_connection
   = (None,
      demo_server\<lparr>users :=
        [(PStr ''alice'', demo_user),
         (PStr ''mallory'',
          PDict [(PStr ''username'', PStr ''mallory''), (PStr ''password_hash'', PStr ''sha256(pw)''),
                 (PStr ''permissions'', PStr ''a'')])]\<rparr>,
      demo_connection\<lparr>sent := [code_error 14 ''Invalid password.''], socket_open := False\<rparr>,
      [])"
proof -
  have "log_in demo_host ''n3w1d'' 70000000
     (PDict [(PStr ''command'', PStr ''L''), (PStr ''username'', PStr ''alice''),
             (PStr ''password'', PStr ''wrong'')])
     demo_server demo_connection
   = (None,
      demo_server\<lparr>sessions :=
        [(''5e55'', demo_session),
         (''n3w1d'',
          \<lparr>addr = (''10.0.0.7'', 50001), session_id = ''n3w1d'', username = PStr ''alice'',
           timestamp = 70000000, expire_after = Some 60, current_directory = ''.'',
           expires = Some 130000000\<rparr>)]\<rparr>,
      demo_connection\<lparr>sent := [code_error 14 ''Invalid password.''], socket_open := False\<rparr>,
      [])"
    by (simp add: log_in_def has_both_def hash_password_def demo_host_def demo_user_def
          demo_server_def demo_connection_def respond_invalid_password respond_closed
          num_existing_sessions_def Let_def demo_new_session)
  moreover have "admin demo_host (ADMIN_COMMANDS demo_host (\<lambda>i args. Inl TypeError))
     (PDict [(PStr ''command'', PStr ''A''), (PStr ''username'', PStr ''alice''),
             (PStr ''password'', PStr ''wrong''), (PStr ''admin_command'', PInt 1),
             (PStr ''args'',
              PDict [(PStr ''username'', PStr ''mallory''), (PStr ''password'', PStr ''pw''),
                     (PStr ''permissions'', PStr ''a'')])])
     demo_server demo_connection
   = (None,
      demo_server\<lparr>users :=
        [(PStr ''alice'', demo_user),
         (PStr ''mallory'',
          PDict [(PStr ''username'', PStr ''mallory''), (PStr ''password_hash'', PStr ''sha256(pw)''),
                 (PStr ''permissions'', PStr ''a'')])]\<rparr>,
      demo_connection\<lparr>sent := [code_error 14 ''Invalid password.''], socket_open := False\<rparr>,
      [])"
    by (simp add: admin_def admin_try_def has_both_def hash_password_def demo_host_def demo_user_def
          demo_server_def demo_connection_def respond_invalid_password respond_closed
          ACCEPTABLE_ADMIN_COMMAND_IDS_def py_index_def ADMIN_COMMANDS_def CreateUserCommand_def
          keyword_args_def CreateUserCommand_preform_def create_user_def update_users_def
          dict_setitem_def respond_command_def finish_def new_command_def code_only_def
          num_eq_def Let_def)
  ultimately show ?thesis by (rule conjI)
qed

section \<open>Changing a password\<close>

text \<open>
  C4, at a failing input. \<open>update_user\<close> with \<open>to_modify = {'password': 'new'}\<close> succeeds and
  stores the hash of the new password under the key \<open>password\<close>; the field
  \<open>password_hash\<close>, which authentication and \<open>get_user\<close> read, still holds the hash of the
  old password.
\<close>

theorem update_user_keeps_password_hash:
  "update_user demo_host demo_server (PStr ''alice'') (PDict [(PStr ''password'', PStr ''new'')])
   = (None,
      demo_server\<lparr>users :=
        [(PStr ''alice'',
          PDict [(PStr ''username'', PStr ''alice''), (PStr ''password_hash'', PStr ''sha256(old)''),
                 (PStr ''permissions'', PStr ''w''), (PStr ''password'', PStr ''sha256(new)'')])]\<rparr>)
   \<and> sha256_hex demo_host ''new'' = ''sha256(new)''
   \<and> GetUserCommand_preform demo_host (PStr ''alice'')
        (snd (update_user demo_host demo_server (PStr ''alice'')
                (PDict [(PStr ''password'', PStr ''new'')])))
     = (Inr \<lparr>data = Some (PDict [(PStr ''code'', PInt 0), (PStr ''password_hash'', PStr ''sha256(old)''),
                                   (PStr ''permissions'', PStr ''w'')]),
             finished = True\<rparr>,
        snd (update_user demo_host demo_server (PStr ''alice'')
               (PDict [(PStr ''password'', PStr ''new'')])))"
  by (simp add: update_user_def hash_password_def demo_host_def demo_user_def demo_server_def
        dict_setitem_def dict_update_def update_users_def GetUserCommand_preform_def finish_def
        new_command_def)

section \<open>The path sandbox\<close>

lemma demo_validate:
  "validate 50000000 50000001 demo_server demo_session
     = Inr (True, demo_renewed, demo_session\<lparr>expires := Some 110000001\<rparr>)"
  by (simp add: demo_renewed_def demo_server_def demo_session_def validate_def Let_def
        timedelta_def datetime_add_def datetime_max_def)

lemma demo_permissions:
  "user_permissions demo_renewed (demo_session\<lparr>expires := Some 110000001\<rparr>) = Inr (PStr ''w'')"
  by (simp add: user_permissions_def demo_renewed_def demo_server_def demo_session_def demo_user_def)

lemma demo_root: "abspath (getcwd demo_host) (path demo_renewed) = ''/srv/root''"
  by (simp add: demo_renewed_def demo_server_def demo_host_def abspath_def normpath_def startswith_def)

lemma demo_full_a:
  "get_full_path demo_host demo_renewed (demo_session\<lparr>expires := Some 110000001\<rparr>) ''a.txt''
     = ''/srv/root/a.txt''"
  by (simp add: get_full_path_def demo_renewed_def demo_server_def demo_session_def demo_host_def
        abspath_def normpath_def join_def startswith_def)

lemma demo_full_abs:
  "get_full_path demo_host demo_renewed (demo_session\<lparr>expires := Some 110000001\<rparr>) ''/tmp/stolen''
     = ''/srv/root/tmp/stolen''"
  by (simp add: get_full_path_def demo_renewed_def demo_server_def demo_session_def demo_host_def
        abspath_def normpath_def join_def startswith_def)

lemma demo_full_up:
  "get_full_path demo_host demo_renewed (demo_session\<lparr>expires := Some 110000001\<rparr>)
     ''../../tmp/stolen'' = ''/tmp/stolen''"
  by (simp add: get_full_path_def demo_renewed_def demo_server_def demo_session_def demo_host_def
        abspath_def normpath_def join_def startswith_def)

lemma demo_valid_a:
  "validate_path demo_host demo_renewed (demo_session\<lparr>expires := Some 110000001\<rparr>) ''a.txt''"
  by (simp add: validate_path_def demo_full_a demo_root startswith_def)

lemma demo_valid_abs:
  "validate_path demo_host demo_renewed (demo_session\<lparr>expires := Some 110000001\<rparr>) ''/tmp/stolen''"
  by (simp add: validate_path_def demo_full_abs demo_root startswith_def)

lemma demo_invalid_up:
  "\<not> validate_path demo_host demo_renewed (demo_session\<lparr>expires := Some 110000001\<rparr>)
       ''../../tmp/stolen''"
  by (simp add: validate_path_def demo_full_up demo_root startswith_def)

lemma demo_exists_a: "path_exists demo_host ''/srv/root/a.txt''"
  by (simp add: demo_host_def)

lemma demo_rename_ok: "os_rename demo_host src dst = None"
  by (simp add: demo_host_def)

lemma demo_copy_ok: "shutil_copy demo_host src dst = None"
  by (simp add: demo_host_def)

text \<open>
  C2, at a failing input. The root is \<open>/srv/a\<close>, the session is in the root directory and
  the client path is \<open>../abc\<close>. The path resolves to \<open>/srv/abc\<close>, a sibling of the root, and
  \<open>validate_path\<close> accepts it, because \<open>/srv/abc\<close> starts with the characters of \<open>/srv/a\<close>;
  the components of the root are not a prefix of those of the resolved path.
\<close>

theorem sandbox_admits_sibling:
  "validate_path demo_host (demo_server\<lparr>path := ''/srv/a''\<rparr>) demo_session ''../abc''
   \<and> get_full_path demo_host (demo_server\<lparr>path := ''/srv/a''\<rparr>) demo_session ''../abc''
       = ''/srv/abc''
   \<and> abspath (getcwd demo_host) (path (demo_server\<lparr>path := ''/srv/a''\<rparr>)) = ''/srv/a''
   \<and> \<not> prefix (str_split CHR ''/'' ''/srv/a'') (str_split CHR ''/'' ''/srv/abc'')"
  by (simp add: validate_path_def get_full_path_def demo_host_def demo_server_def demo_session_def
        normpath_def abspath_def join_def startswith_def Let_def)

text \<open>
  C3, at a failing input. The root is \<open>/srv/root\<close>; alice, who may write, renames \<open>a.txt\<close>
  to \<open>/tmp/stolen\<close>. \<open>RenameCommand.preform\<close> validates the source only and hands the raw
  \<open>new_name\<close> to \<open>os.rename\<close>: the file leaves the root and the result is code 0.
  \<open>CopyCommand.preform\<close>, given the same destination, resolves it against the root
  (\<open>/srv/root/tmp/stolen\<close>), and refuses with code 18 a destination that climbs out of it.
\<close>

theorem rename_destination_unchecked:
  "RenameCommand_preform demo_host 50000000 50000001 (PStr ''a.txt'') (PStr ''/tmp/stolen'')
     demo_server demo_session
   = (Inr \<lparr>data = Some (code_only 0), finished = True\<rparr>, demo_renewed,
      [OsRename ''/srv/root/a.txt'' ''/tmp/stolen''])
   \<and> abspath (getcwd demo_host) (path demo_renewed) = ''/srv/root''
   \<and> \<not> startswith ''/tmp/stolen'' ''/srv/root''
   \<and> CopyCommand_preform demo_host 50000000 50000001 (PStr ''a.txt'') (PStr ''/tmp/stolen'')
     demo_server demo_session
   = (Inr \<lparr>data = Some (code_only 0), finished = True\<rparr>, demo_renewed,
      [ShutilCopy ''/srv/root/a.txt'' ''/srv/root/tmp/stolen''])
   \<and> CopyCommand_preform demo_host 50000000 50000001 (PStr ''a.txt'') (PStr ''../../tmp/stolen'')
     demo_server demo_session
   = (Inr \<lparr>data = Some (code_error 18 ''Invalid destination path.''), finished = True\<rparr>,
      demo_renewed, [])"
  by (simp add: RenameCommand_preform_def CopyCommand_preform_def demo_validate demo_permissions
        demo_valid_a demo_valid_abs demo_invalid_up demo_full_a demo_full_abs demo_exists_a
        demo_rename_ok demo_copy_ok demo_root as_path_def finish_def new_command_def startswith_def)

section \<open>The codec on values without floats\<close>

lemma to_bytes_unsigned_8D:
  assumes "to_bytes_unsigned (int n) 8 = Inr x"
  shows "n < 2 ^ 64 \<and> x = le_bytes (int n) 8"
proof (cases "int n < 2 ^ (8 * 8)")
  case True
  have "int (2 ^ 64) = 2 ^ (8 * 8)" by simp
  with True have "int n < int (2 ^ 64)" by (simp only:)
  then have n: "n < 2 ^ 64" by (simp only: of_nat_less_iff)
  from to_bytes_unsigned_8 [OF n] assms have "x = le_bytes (int n) 8"
    by (simp only: sum.inject)
  with n show ?thesis by (simp only: simp_thms)
next
  case False
  then have "to_bytes_unsigned (int n) 8 = Inl OverflowError"
    unfolding to_bytes_unsigned_def by (simp only: simp_thms if_False)
  with assms have False by (simp only: sum.distinct)
  then show ?thesis ..
qed

lemma tagged_InrD:
  assumes "tagged t r = Inr b"
  shows "\<exists>p. r = Inr p \<and> length p < 2 ^ 64 \<and> b = t # le_bytes (int (length p)) 8 @ p"
proof (cases r)
  case (Inl e)
  with assms show ?thesis by (simp only: tagged_def sum.case sum.distinct)
next
  case (Inr p)
  show ?thesis
  proof (cases "to_bytes_unsigned (int (length p)) 8")
    case (Inl e)
    with assms Inr show ?thesis by (simp only: tagged_def sum.case sum.distinct)
  next
    case x: (Inr x)
    from assms Inr x have b: "b = t # x @ p"
      by (simp only: tagged_def sum.case sum.inject)
    from to_bytes_unsigned_8D [OF x] have "length p < 2 ^ 64" "x = le_bytes (int (length p)) 8"
      by (simp_all only:)
    with b Inr show ?thesis by (simp only: sum.inject simp_thms ex_simps)
  qed
qed

lemma header_length:
  assumes "n < 2 ^ 64"
  shows "from_bytes_unsigned (take 8 (le_bytes (int n) 8 @ r)) = int n"
proof -
  have "length (le_bytes (int n) 8) = 8" by (rule length_le_bytes)
  then have t: "take 8 (le_bytes (int n) 8 @ r) = le_bytes (int n) 8"
    by (simp only: take_append take_all order_refl diff_self_eq_0 take_0 append_Nil2)
  have "int n < int (2 ^ 64)" using assms by (simp only: of_nat_less_iff)
  moreover have "int (2 ^ 64) = 2 ^ (8 * 8)" by simp
  ultimately have "int n < 2 ^ (8 * 8)" by (simp only:)
  with of_nat_0_le_iff have "int n mod 2 ^ (8 * 8) = int n" by (rule mod_pos_pos_trivial)
  then show ?thesis by (simp only: t from_le_bytes)
qed

lemma header_payload:
  "drop 8 (le_bytes (int n) 8 @ p @ r) = p @ r"
proof -
  have "length (le_bytes (int n) 8) = 8" by (rule length_le_bytes)
  then show ?thesis by (simp del: le_bytes_numeral)
qed

lemma deserialize_frame:
  assumes "length p < 2 ^ 64"
  shows "deserialize (t # le_bytes (int (length p)) 8 @ p) =
    (case TAG_MAP t p of Inl e \<Rightarrow> Inl DeserializingException | Inr v \<Rightarrow> Inr v)"
proof -
  have a: "from_bytes_unsigned (take 8 (le_bytes (int (length p)) 8 @ p)) = int (length p)"
    using assms by (rule header_length)
  have b: "drop 8 (le_bytes (int (length p)) 8 @ p) = p"
    using header_payload [of "length p" p "[]"] by (simp only: append_Nil2)
  have c: "take (length p) p = p" by simp
  show ?thesis
    by (simp only: deserialize.simps a b nat_int c)
qed

lemma encodes_deserialize: "encodes b v \<Longrightarrow> deserialize b = Inr v"
  unfolding encodes_def by (auto simp only: deserialize_frame sum.case)

lemma deserialize_list_frame:
  assumes "length p < 2 ^ 64"
  shows "deserialize_list (t # le_bytes (int (length p)) 8 @ p @ r) =
    (case TAG_MAP t p of
       Inl e \<Rightarrow> Inl e
     | Inr v \<Rightarrow> (case deserialize_list r of Inl e \<Rightarrow> Inl e | Inr vs \<Rightarrow> Inr (v # vs)))"
proof -
  have a: "from_bytes_unsigned (take 8 (le_bytes (int (length p)) 8 @ p @ r)) = int (length p)"
    using assms by (rule header_length)
  have b: "drop 8 (le_bytes (int (length p)) 8 @ p @ r) = p @ r"
    by (rule header_payload)
  have c: "take (length p) (p @ r) = p" "drop (length p) (p @ r) = r"
    by simp_all
  show ?thesis
    by (simp only: deserialize_list.simps a b nat_int c)
qed

lemma encodes_deserialize_list:
  assumes "encodes b v"
  shows "deserialize_list (b @ r) =
    (case deserialize_list r of Inl e \<Rightarrow> Inl e | Inr vs \<Rightarrow> Inr (v # vs))"
proof -
  from assms obtain t p where
    b: "b = t # le_bytes (int (length p)) 8 @ p" and p: "length p < 2 ^ 64"
    and v: "TAG_MAP t p = Inr v"
    unfolding encodes_def by blast
  have "b @ r = t # le_bytes (int (length p)) 8 @ p @ r"
    by (simp only: b append_Cons append_assoc)
  then show ?thesis
    by (simp only: deserialize_list_frame [OF p] v sum.case)
qed

lemma char_of_byte_of_char: "char_of_byte (byte_of_char c) = c"
  by (simp add: char_of_byte_def byte_of_char_def unat_of_nat)

lemma deserialize_serialize_string:
  "utf8_split (map byte_of_char s) \<noteq> None \<Longrightarrow>
   deserialize_string (serialize_string s) = Inr s"
  by (auto simp: deserialize_string_def serialize_string_def char_of_byte_of_char
        comp_def split: option.splits)

lemma deserialize_serialize_bool: "deserialize_bool (serialize_bool c) = c"
  by (simp add: deserialize_bool_def serialize_bool_def)

lemma TAG_MAP_tags:
  "TAG_MAP 0 p = Inr (PInt (deserialize_int p))"
  "TAG_MAP 1 p = map_sum id PFloat (deserialize_float p)"
  "TAG_MAP 2 p = map_sum id PStr (deserialize_string p)"
  "TAG_MAP 3 p = Inr (PBytes (deserialize_bytes p))"
  "TAG_MAP 4 p = map_sum id PList (deserialize_list p)"
  "TAG_MAP 5 p = map_sum id PTuple (deserialize_list p)"
  "TAG_MAP 7 p = Inr PNone"
  "TAG_MAP 8 p = Inr (PBool (deserialize_bool p))"
  by simp_all

lemma TAG_MAP_dict:
  "TAG_MAP 6 p = map_sum id PDict (deserialize_dict p)"
  by (simp del: deserialize_dict.simps)

lemma TAG_MAP_set:
  "TAG_MAP 9 p = map_sum id PSet (deserialize_set p)"
  by (simp del: deserialize_set.simps)

lemma pairwise_unequal_append:
  "pairwise_unequal (xs @ ys) \<longleftrightarrow>
     pairwise_unequal xs \<and> pairwise_unequal ys \<and> (\<forall>x\<in>set xs. \<forall>y\<in>set ys. \<not> py_eq x y)"
  by (induction xs) auto

lemma dict_store_fresh:
  "\<forall>k'\<in>set (map fst d). \<not> py_eq k' k \<Longrightarrow> dict_store d k v = d @ [(k, v)]"
  by (induction d) auto

lemma unpack2_pair: "unpack2 (PTuple [k, v]) = Inr (k, v)"
  by (simp add: unpack2_def)

lemma dict_fill_items:
  "\<forall>k\<in>set (map fst kvs). hashable k \<Longrightarrow> pairwise_unequal (map fst d @ map fst kvs) \<Longrightarrow>
   dict_fill d (map (\<lambda>(k, v). PTuple [k, v]) kvs) = Inr (d @ kvs)"
proof (induction kvs arbitrary: d)
  case Nil
  then show ?case by simp
next
  case (Cons kv kvs)
  obtain k v where kv: "kv = (k, v)" by (cases kv)
  from Cons.prems(2) kv have fresh: "\<forall>k'\<in>set (map fst d). \<not> py_eq k' k"
    by (auto simp: pairwise_unequal_append)
  from Cons.prems(2) kv have "pairwise_unequal (map fst (d @ [(k, v)]) @ map fst kvs)"
    by simp
  with Cons.IH [of "d @ [(k, v)]"] Cons.prems(1)
  have "dict_fill (d @ [(k, v)]) (map (\<lambda>(k, v). PTuple [k, v]) kvs) = Inr ((d @ [(k, v)]) @ kvs)"
    by simp
  with Cons.prems(1) kv fresh show ?case
    by (simp add: unpack2_pair dict_setitem_def dict_store_fresh)
qed

lemma py_set_fresh:
  "\<forall>x\<in>set xs. hashable x \<Longrightarrow> pairwise_unequal (s @ xs) \<Longrightarrow> py_set s xs = Inr (s @ xs)"
proof (induction xs arbitrary: s)
  case Nil
  then show ?case by simp
next
  case (Cons x xs)
  from Cons.prems(2) have fresh: "\<not> (\<exists>y\<in>set s. py_eq y x)"
    by (auto simp: pairwise_unequal_append)
  from Cons.prems(2) have "pairwise_unequal ((s @ [x]) @ xs)" by simp
  with Cons.IH [of "s @ [x]"] Cons.prems(1) have "py_set (s @ [x]) xs = Inr ((s @ [x]) @ xs)"
    by simp
  with Cons.prems(1) fresh show ?case by (simp add: set_add_def)
qed

lemma python_value_items_list:
  "python_value (PDict kvs) \<Longrightarrow> python_value (items_list kvs)"
  by (auto simp: items_list_def)

lemma encodesI:
  assumes "tagged t r = Inr b" and "\<And>p. r = Inr p \<Longrightarrow> TAG_MAP t p = Inr v"
  shows "encodes b v"
proof -
  from tagged_InrD [OF assms(1)] obtain p where
    p: "r = Inr p" "length p < 2 ^ 64" "b = t # le_bytes (int (length p)) 8 @ p"
    by blast
  from assms(2) [OF p(1)] p(2) p(3) show ?thesis unfolding encodes_def by blast
qed

lemma deserialize_dict_items:
  assumes "deserialize p = Inr (items_list kvs)" and "python_value (PDict kvs)"
  shows "deserialize_dict p = Inr kvs"
proof -
  from assms(2) have h: "\<forall>k\<in>set (map fst kvs). hashable k"
    and u: "pairwise_unequal (map fst [] @ map fst kvs)"
    by auto
  have "dict_fill [] (map (\<lambda>(k, v). PTuple [k, v]) kvs) = Inr ([] @ kvs)"
    using h u by (rule dict_fill_items)
  with assms(1) show ?thesis by (simp add: items_list_def)
qed

lemma deserialize_set_elements:
  assumes "deserialize_list p = Inr xs" and "python_value (PSet xs)"
  shows "deserialize_set p = Inr xs"
proof -
  from assms(2) have h: "\<forall>x\<in>set xs. hashable x" and u: "pairwise_unequal ([] @ xs)"
    by auto
  have "py_set [] xs = Inr ([] @ xs)" using h u by (rule py_set_fresh)
  with assms(1) show ?thesis by simp
qed

lemma serialize_list_ConsD:
  assumes "serialize_list (i # ds) = Inr p"
  shows "\<exists>b bs. serialize i = Inr b \<and> serialize_list ds = Inr bs \<and> p = b @ bs"
  using assms by (auto split: sum.splits)

lemma round_trip_aux:
  "python_value v \<longrightarrow> (\<forall>b. serialize v = Inr b \<longrightarrow> encodes b v)"
  "(\<forall>x\<in>set xs. python_value x) \<longrightarrow>
     (\<forall>p r. serialize_list xs = Inr p \<longrightarrow>
        deserialize_list (p @ r) =
          (case deserialize_list r of Inl e \<Rightarrow> Inl e | Inr ys \<Rightarrow> Inr (xs @ ys)))"
  "(\<forall>x\<in>set ts. python_value x) \<longrightarrow>
     (\<forall>p. serialize_tuple ts = Inr p \<longrightarrow> deserialize_list p = Inr ts)"
  "python_value (PDict kvs) \<longrightarrow>
     (\<forall>p. serialize_dict kvs = Inr p \<longrightarrow> deserialize_dict p = Inr kvs)"
  "(\<forall>x\<in>set ss. python_value x) \<longrightarrow>
     (\<forall>p. serialize_set ss = Inr p \<longrightarrow> deserialize_list p = Inr ss)"
proof (induction v and xs and ts and kvs and ss
    rule: serialize_serialize_list_serialize_tuple_serialize_dict_serialize_set.induct)
  case (1 n)
  show ?case
  proof (intro impI allI)
    fix b assume "serialize (PInt n) = Inr b"
    then have "tagged 0 (serialize_int n) = Inr b" by (simp only: serialize.simps)
    then show "encodes b (PInt n)"
    proof (rule encodesI)
      fix p assume "serialize_int n = Inr p"
      then show "TAG_MAP 0 p = Inr (PInt n)"
        by (simp only: TAG_MAP_tags deserialize_serialize_int)
    qed
  qed
next
  case (2 x)
  show ?case by (simp add: serialize_float_def tagged_def)
next
  case (3 s)
  show ?case
  proof (intro impI allI)
    fix b assume v: "python_value (PStr s)" and "serialize (PStr s) = Inr b"
    then have "tagged 2 (Inr (serialize_string s)) = Inr b" by (simp only: serialize.simps)
    then show "encodes b (PStr s)"
    proof (rule encodesI)
      fix p assume "Inr (serialize_string s) = (Inr p :: py_error + byte list)"
      then have "p = serialize_string s" by simp
      moreover from v have "deserialize_string (serialize_string s) = Inr s"
        by (simp add: deserialize_serialize_string)
      ultimately show "TAG_MAP 2 p = Inr (PStr s)"
        by (simp only: TAG_MAP_tags map_sum.simps id_apply)
    qed
  qed
next
  case (4 bs)
  show ?case
  proof (intro impI allI)
    fix b assume "serialize (PBytes bs) = Inr b"
    then have "tagged 3 (Inr (serialize_bytes bs)) = Inr b" by (simp only: serialize.simps)
    then show "encodes b (PBytes bs)"
    proof (rule encodesI)
      fix p assume "Inr (serialize_bytes bs) = (Inr p :: py_error + byte list)"
      then have "p = bs" by (simp add: serialize_bytes_def)
      then show "TAG_MAP 3 p = Inr (PBytes bs)"
        by (simp only: TAG_MAP_tags deserialize_bytes_def)
    qed
  qed
next
  case (5 xs)
  show ?case
  proof (intro impI allI)
    fix b assume v: "python_value (PList xs)" and "serialize (PList xs) = Inr b"
    then have "tagged 4 (serialize_list xs) = Inr b" by (simp only: serialize.simps)
    then show "encodes b (PList xs)"
    proof (rule encodesI)
      fix p assume p: "serialize_list xs = Inr p"
      from v have "\<forall>x\<in>set xs. python_value x" by simp
      with 5 p have "deserialize_list (p @ []) =
          (case deserialize_list [] of Inl e \<Rightarrow> Inl e | Inr ys \<Rightarrow> Inr (xs @ ys))"
        by blast
      then have "deserialize_list p = Inr xs" by simp
      then show "TAG_MAP 4 p = Inr (PList xs)"
        by (simp only: TAG_MAP_tags map_sum.simps id_apply)
    qed
  qed
next
  case (6 xs)
  show ?case
  proof (intro impI allI)
    fix b assume v: "python_value (PTuple xs)" and "serialize (PTuple xs) = Inr b"
    then have "tagged 5 (serialize_tuple xs) = Inr b" by (simp only: serialize.simps)
    then show "encodes b (PTuple xs)"
    proof (rule encodesI)
      fix p assume p: "serialize_tuple xs = Inr p"
      from v have "\<forall>x\<in>set xs. python_value x" by simp
      with 6 p have "deserialize_list p = Inr xs" by blast
      then show "TAG_MAP 5 p = Inr (PTuple xs)"
        by (simp only: TAG_MAP_tags map_sum.simps id_apply)
    qed
  qed
next
  case (7 kvs)
  show ?case
  proof (intro impI allI)
    fix b assume v: "python_value (PDict kvs)" and "serialize (PDict kvs) = Inr b"
    then have "tagged 6 (serialize_dict kvs) = Inr b" by (simp only: serialize.simps)
    then show "encodes b (PDict kvs)"
    proof (rule encodesI)
      fix p assume p: "serialize_dict kvs = Inr p"
      with 7 v have "deserialize_dict p = Inr kvs" by blast
      then show "TAG_MAP 6 p = Inr (PDict kvs)"
        by (simp only: TAG_MAP_dict map_sum.simps id_apply)
    qed
  qed
next
  case 8
  show ?case
  proof (intro impI allI)
    fix b assume "serialize PNone = Inr b"
    then have "tagged 7 (Inr serialize_none) = Inr b" by (simp only: serialize.simps)
    then show "encodes b PNone"
    proof (rule encodesI)
      fix p
      show "TAG_MAP 7 p = Inr PNone" by (simp only: TAG_MAP_tags)
    qed
  qed
next
  case (9 c)
  show ?case
  proof (intro impI allI)
    fix b assume "serialize (PBool c) = Inr b"
    then have "tagged 8 (Inr (serialize_bool c)) = Inr b" by (simp only: serialize.simps)
    then show "encodes b (PBool c)"
    proof (rule encodesI)
      fix p assume "Inr (serialize_bool c) = (Inr p :: py_error + byte list)"
      then have "p = serialize_bool c" by simp
      then show "TAG_MAP 8 p = Inr (PBool c)"
        by (simp only: TAG_MAP_tags deserialize_serialize_bool)
    qed
  qed
next
  case (10 xs)
  show ?case
  proof (intro impI allI)
    fix b assume v: "python_value (PSet xs)" and "serialize (PSet xs) = Inr b"
    then have "tagged 9 (serialize_set xs) = Inr b" by (simp only: serialize.simps)
    then show "encodes b (PSet xs)"
    proof (rule encodesI)
      fix p assume p: "serialize_set xs = Inr p"
      from v have "\<forall>x\<in>set xs. python_value x" by simp
      with 10 p have "deserialize_list p = Inr xs" by blast
      then have "deserialize_set p = Inr xs" using v by (rule deserialize_set_elements)
      then show "TAG_MAP 9 p = Inr (PSet xs)"
        by (simp only: TAG_MAP_set map_sum.simps id_apply)
    qed
  qed
next
  case 11
  show ?case by (simp split: sum.splits)
next
  case (12 i ds)
  show ?case
  proof (intro impI allI)
    fix p r
    assume v: "\<forall>x\<in>set (i # ds). python_value x" and s: "serialize_list (i # ds) = Inr p"
    from serialize_list_ConsD [OF s] obtain b bs where
      b: "serialize i = Inr b" and bs: "serialize_list ds = Inr bs" and p: "p = b @ bs"
      by blast
    from v have vi: "python_value i" and vd: "\<forall>x\<in>set ds. python_value x" by simp_all
    from 12(1) vi b have e: "encodes b i" by blast
    from 12(2) [OF b] vd bs have d: "deserialize_list (bs @ r) =
        (case deserialize_list r of Inl e \<Rightarrow> Inl e | Inr ys \<Rightarrow> Inr (ds @ ys))"
      by blast
    have "deserialize_list (p @ r) = deserialize_list (b @ (bs @ r))"
      by (simp only: p append_assoc)
    also have "\<dots> = (case deserialize_list (bs @ r) of
        Inl e \<Rightarrow> Inl e | Inr vs \<Rightarrow> Inr (i # vs))"
      using e by (rule encodes_deserialize_list)
    also have "\<dots> = (case deserialize_list r of
        Inl e \<Rightarrow> Inl e | Inr ys \<Rightarrow> Inr ((i # ds) @ ys))"
      unfolding d by (cases "deserialize_list r") simp_all
    finally show "deserialize_list (p @ r) =
        (case deserialize_list r of Inl e \<Rightarrow> Inl e | Inr ys \<Rightarrow> Inr ((i # ds) @ ys))" .
  qed
next
  case (13 ds)
  show ?case
  proof (intro impI allI)
    fix p assume v: "\<forall>x\<in>set ds. python_value x" and "serialize_tuple ds = Inr p"
    then have "serialize_list ds = Inr p" by (simp only: serialize_tuple.simps)
    with 13 v have "deserialize_list (p @ []) =
        (case deserialize_list [] of Inl e \<Rightarrow> Inl e | Inr ys \<Rightarrow> Inr (ds @ ys))"
      by blast
    then show "deserialize_list p = Inr ds" by simp
  qed
next
  case (14 ds)
  show ?case
  proof (intro impI allI)
    fix p assume v: "python_value (PDict ds)" and "serialize_dict ds = Inr p"
    then have s: "serialize (items_list ds) = Inr p" by (simp only: serialize_dict.simps)
    from v have "python_value (items_list ds)" by (rule python_value_items_list)
    with 14 s have "encodes p (items_list ds)" by blast
    then have "deserialize p = Inr (items_list ds)" by (rule encodes_deserialize)
    then show "deserialize_dict p = Inr ds" using v by (rule deserialize_dict_items)
  qed
next
  case (15 ds)
  show ?case
  proof (intro impI allI)
    fix p assume v: "\<forall>x\<in>set ds. python_value x" and "serialize_set ds = Inr p"
    then have "serialize_list ds = Inr p" by (simp only: serialize_set.simps)
    with 15 v have "deserialize_list (p @ []) =
        (case deserialize_list [] of Inl e \<Rightarrow> Inl e | Inr ys \<Rightarrow> Inr (ds @ ys))"
      by blast
    then show "deserialize_list p = Inr ds" by simp
  qed
qed

lemma wire_size_items_list:
  "wire_size (items_list kvs) =
     9 + sum_list (map (\<lambda>(k, v). 9 + (wire_size k + (wire_size v + 0))) kvs)"
  by (induction kvs) (auto simp: items_list_def)

lemma tagged_total:
  assumes "9 + length p < 2 ^ 64"
  shows "\<exists>b. tagged t (Inr p) = Inr b \<and> length b = 9 + length p"
proof -
  have "length p \<le> 9 + length p" by (rule le_add2)
  then have "length p < 2 ^ 64" using assms by (rule le_less_trans)
  then have "tagged t (Inr p) = Inr (t # le_bytes (int (length p)) 8 @ p)"
    by (rule tagged_Inr)
  moreover have "length (t # le_bytes (int (length p)) 8 @ p) = 9 + length p"
    by (simp add: length_le_bytes del: le_bytes_numeral)
  ultimately show ?thesis by blast
qed

lemma payload_bound: "9 + (n::nat) < 2 ^ 64 \<Longrightarrow> n < 2 ^ 64"
  by (rule le_less_trans [OF le_add2])

lemma sum_bound:
  assumes "(a::nat) + b < 2 ^ 64"
  shows "a < 2 ^ 64" and "b < 2 ^ 64"
  using assms by (rule le_less_trans [OF le_add1], rule le_less_trans [OF le_add2])

lemma float_free_items_list:
  "float_free (PDict kvs) \<Longrightarrow> float_free (items_list kvs)"
  by (auto simp: items_list_def)

lemma serialize_total_aux:
  "float_free v \<and> wire_size v < 2 ^ 64 \<longrightarrow>
     (\<exists>b. serialize v = Inr b \<and> length b = wire_size v)"
  "(\<forall>x\<in>set xs. float_free x) \<and> sum_list (map wire_size xs) < 2 ^ 64 \<longrightarrow>
     (\<exists>p. serialize_list xs = Inr p \<and> length p = sum_list (map wire_size xs))"
  "(\<forall>x\<in>set ts. float_free x) \<and> sum_list (map wire_size ts) < 2 ^ 64 \<longrightarrow>
     (\<exists>p. serialize_tuple ts = Inr p \<and> length p = sum_list (map wire_size ts))"
  "float_free (PDict kvs) \<and> wire_size (items_list kvs) < 2 ^ 64 \<longrightarrow>
     (\<exists>p. serialize_dict kvs = Inr p \<and> length p = wire_size (items_list kvs))"
  "(\<forall>x\<in>set ss. float_free x) \<and> sum_list (map wire_size ss) < 2 ^ 64 \<longrightarrow>
     (\<exists>p. serialize_set ss = Inr p \<and> length p = sum_list (map wire_size ss))"
proof (induction v and xs and ts and kvs and ss
    rule: serialize_serialize_list_serialize_tuple_serialize_dict_serialize_set.induct)
  case (1 n)
  show ?case
  proof
    assume "float_free (PInt n) \<and> wire_size (PInt n) < 2 ^ 64"
    then have "9 + length (le_bytes n ((bit_length n + 7) div 8 + 1)) < 2 ^ 64"
      by (simp only: wire_size.simps length_le_bytes)
    from tagged_total [OF this, of 0]
    show "\<exists>b. serialize (PInt n) = Inr b \<and> length b = wire_size (PInt n)"
      by (simp only: serialize.simps serialize_int_eq wire_size.simps length_le_bytes)
  qed
next
  case (2 x)
  show ?case by simp
next
  case (3 s)
  show ?case
  proof
    assume "float_free (PStr s) \<and> wire_size (PStr s) < 2 ^ 64"
    then have "9 + length (serialize_string s) < 2 ^ 64"
      by (simp only: wire_size.simps serialize_string_def length_map)
    from tagged_total [OF this, of 2]
    show "\<exists>b. serialize (PStr s) = Inr b \<and> length b = wire_size (PStr s)"
      by (simp only: serialize.simps wire_size.simps serialize_string_def length_map)
  qed
next
  case (4 bs)
  show ?case
  proof
    assume "float_free (PBytes bs) \<and> wire_size (PBytes bs) < 2 ^ 64"
    then have "9 + length (serialize_bytes bs) < 2 ^ 64"
      by (simp only: wire_size.simps serialize_bytes_def)
    from tagged_total [OF this, of 3]
    show "\<exists>b. serialize (PBytes bs) = Inr b \<and> length b = wire_size (PBytes bs)"
      by (simp only: serialize.simps wire_size.simps serialize_bytes_def)
  qed
next
  case (5 xs)
  show ?case
  proof
    assume a: "float_free (PList xs) \<and> wire_size (PList xs) < 2 ^ 64"
    then have f: "\<forall>x\<in>set xs. float_free x" by simp
    from a have w: "9 + sum_list (map wire_size xs) < 2 ^ 64" by (simp only: wire_size.simps)
    then have "sum_list (map wire_size xs) < 2 ^ 64" by (rule payload_bound)
    with 5 f obtain p where p: "serialize_list xs = Inr p" "length p = sum_list (map wire_size xs)"
      by blast
    from w p(2) have "9 + length p < 2 ^ 64" by (simp only:)
    from tagged_total [OF this, of 4] p
    show "\<exists>b. serialize (PList xs) = Inr b \<and> length b = wire_size (PList xs)"
      by (simp only: serialize.simps wire_size.simps)
  qed
next
  case (6 xs)
  show ?case
  proof
    assume a: "float_free (PTuple xs) \<and> wire_size (PTuple xs) < 2 ^ 64"
    then have f: "\<forall>x\<in>set xs. float_free x" by simp
    from a have w: "9 + sum_list (map wire_size xs) < 2 ^ 64" by (simp only: wire_size.simps)
    then have "sum_list (map wire_size xs) < 2 ^ 64" by (rule payload_bound)
    with 6 f obtain p where p: "serialize_tuple xs = Inr p" "length p = sum_list (map wire_size xs)"
      by blast
    from w p(2) have "9 + length p < 2 ^ 64" by (simp only:)
    from tagged_total [OF this, of 5] p
    show "\<exists>b. serialize (PTuple xs) = Inr b \<and> length b = wire_size (PTuple xs)"
      by (simp only: serialize.simps wire_size.simps)
  qed
next
  case (7 kvs)
  show ?case
  proof
    assume a: "float_free (PDict kvs) \<and> wire_size (PDict kvs) < 2 ^ 64"
    then have f: "float_free (PDict kvs)" by blast
    from a have w: "9 + wire_size (items_list kvs) < 2 ^ 64"
      by (simp only: wire_size.simps wire_size_items_list)
    then have "wire_size (items_list kvs) < 2 ^ 64" by (rule payload_bound)
    with 7 f obtain p where p: "serialize_dict kvs = Inr p" "length p = wire_size (items_list kvs)"
      by blast
    from w p(2) have "9 + length p < 2 ^ 64" by (simp only:)
    from tagged_total [OF this, of 6] p
    show "\<exists>b. serialize (PDict kvs) = Inr b \<and> length b = wire_size (PDict kvs)"
      by (simp only: serialize.simps wire_size.simps wire_size_items_list)
  qed
next
  case 8
  show ?case
  proof
    assume "float_free PNone \<and> wire_size PNone < 2 ^ 64"
    then have "9 + length serialize_none < 2 ^ 64"
      by (simp only: wire_size.simps serialize_none_def list.size One_nat_def add_0)
    from tagged_total [OF this, of 7]
    show "\<exists>b. serialize PNone = Inr b \<and> length b = wire_size PNone"
      by (simp only: serialize.simps wire_size.simps serialize_none_def list.size One_nat_def add_0)
  qed
next
  case (9 c)
  have l: "length (serialize_bool c) = 1" by (simp add: serialize_bool_def)
  show ?case
  proof
    assume "float_free (PBool c) \<and> wire_size (PBool c) < 2 ^ 64"
    then have "9 + length (serialize_bool c) < 2 ^ 64"
      by (simp only: wire_size.simps l)
    from tagged_total [OF this, of 8]
    show "\<exists>b. serialize (PBool c) = Inr b \<and> length b = wire_size (PBool c)"
      by (simp only: serialize.simps wire_size.simps l)
  qed
next
  case (10 xs)
  show ?case
  proof
    assume a: "float_free (PSet xs) \<and> wire_size (PSet xs) < 2 ^ 64"
    then have f: "\<forall>x\<in>set xs. float_free x" by simp
    from a have w: "9 + sum_list (map wire_size xs) < 2 ^ 64" by (simp only: wire_size.simps)
    then have "sum_list (map wire_size xs) < 2 ^ 64" by (rule payload_bound)
    with 10 f obtain p where p: "serialize_set xs = Inr p" "length p = sum_list (map wire_size xs)"
      by blast
    from w p(2) have "9 + length p < 2 ^ 64" by (simp only:)
    from tagged_total [OF this, of 9] p
    show "\<exists>b. serialize (PSet xs) = Inr b \<and> length b = wire_size (PSet xs)"
      by (simp only: serialize.simps wire_size.simps)
  qed
next
  case 11
  show ?case by simp
next
  case (12 i ds)
  show ?case
  proof
    assume h: "(\<forall>x\<in>set (i # ds). float_free x) \<and> sum_list (map wire_size (i # ds)) < 2 ^ 64"
    then have fi: "float_free i" and fd: "\<forall>x\<in>set ds. float_free x" by simp_all
    from h have a: "wire_size i + sum_list (map wire_size ds) < 2 ^ 64"
      by (simp only: list.map sum_list.Cons)
    from sum_bound(1) [OF a] fi 12(1) obtain b where
      b: "serialize i = Inr b" "length b = wire_size i"
      by blast
    from sum_bound(2) [OF a] fd 12(2) [OF b(1)] obtain bs where
      bs: "serialize_list ds = Inr bs" "length bs = sum_list (map wire_size ds)"
      by blast
    from b bs
    show "\<exists>p. serialize_list (i # ds) = Inr p \<and> length p = sum_list (map wire_size (i # ds))"
      by simp
  qed
next
  case (13 ds)
  then show ?case by (simp only: serialize_tuple.simps)
next
  case (14 ds)
  show ?case
  proof
    assume a: "float_free (PDict ds) \<and> wire_size (items_list ds) < 2 ^ 64"
    then have "float_free (items_list ds)" by (intro float_free_items_list) blast
    with a 14 show "\<exists>p. serialize_dict ds = Inr p \<and> length p = wire_size (items_list ds)"
      by (simp only: serialize_dict.simps)
  qed
next
  case (15 ds)
  then show ?case by (simp only: serialize_set.simps)
qed

lemma py_eq_refl: "float_free v \<Longrightarrow> py_eq v v"
proof (induction v)
  case (PDict kvs)
  have "\<And>k v. (k, v) \<in> set kvs \<Longrightarrow> py_eq k k \<and> py_eq v v"
  proof -
    fix k v assume m: "(k, v) \<in> set kvs"
    with PDict.prems have "float_free k" "float_free v" by auto
    with PDict.IH [of "(k, v)" k] PDict.IH [of "(k, v)" v] m show "py_eq k k \<and> py_eq v v"
      by simp
  qed
  then show ?case by fastforce
qed (auto simp: num_eq_def list_all2_same)

lemma deserialize_serialize:
  assumes "python_value v" and "serialize v = Inr b"
  shows "deserialize b = Inr v"
proof -
  from round_trip_aux(1) [of v] assms have "encodes b v" by blast
  then show ?thesis by (rule encodes_deserialize)
qed

text \<open>
  The round trip of every value that holds no float and whose encoding is shorter than
  \<open>2 ^ 64\<close> bytes: \<open>serialize\<close> returns, \<open>deserialize\<close> returns on what it returned, and
  the value decoded equals the value encoded under Python's \<open>==\<close>.
\<close>

lemma serialize_deserialize:
  assumes "python_value v" and "float_free v" and "wire_size v < 2 ^ 64"
  shows "\<exists>b v'. serialize v = Inr b \<and> deserialize b = Inr v' \<and> py_eq v' v"
proof -
  from serialize_total_aux(1) [of v] assms(2,3) obtain b where b: "serialize v = Inr b"
    by blast
  from deserialize_serialize [OF assms(1) b] b py_eq_refl [OF assms(2)] show ?thesis
    by blast
qed

section \<open>Floats\<close>

lemma tagged_Inl: "tagged t (Inl e) = Inl SerializingException"
  by (simp add: tagged_def)

text \<open>
  C6, at a failing input. The float 1.5 is a value of the ten kinds. \<open>serialize\<close> raises
  SerializingException on it, alone and inside a dict, since \<open>serialize_float\<close> calls
  \<open>struct.pack\<close> and no module imports \<open>struct\<close>; there is nothing to decode. The thirteen
  bytes that the format of the protocol gives 1.5 (tag 1, length 4, the single-precision
  pattern \<open>00 00 c0 3f\<close>) make \<open>deserialize\<close> raise DeserializingException, for the same
  reason. Values without floats do make the round trip (\<open>serialize_deserialize\<close>).
\<close>

theorem float_is_not_serialized:
  "serialize (PFloat (FNum (3 / 2))) = Inl SerializingException
   \<and> serialize (PDict [(PStr ''size'', PFloat (FNum (3 / 2)))]) = Inl SerializingException
   \<and> deserialize [1, 4, 0, 0, 0, 0, 0, 0, 0, 0, 0, 192, 63] = Inl DeserializingException"
  by (simp add: serialize_float_def deserialize_float_def tagged_Inl items_list_def
        serialize_string_def tagged_Inr length_bound_small)

section \<open>Framing\<close>








section \<open>Commands on a session that is not in the table\<close>















end
